theory Spec2Isabelle
  imports Complex_Main
begin

section \<open>Strings and diagnostics\<close>

text \<open>
  Python strings are modelled as \<open>string\<close>. The line feed is \<open>CHR 0x0A\<close>, the single
  quote \<open>CHR 0x27\<close>.
\<close>

definition nl :: string where
  "nl = [CHR 0x0A]"

text \<open>\<^verbatim>\<open>sep.join(xs)\<close>\<close>

fun join_str :: "string \<Rightarrow> string list \<Rightarrow> string" where
  "join_str sep [] = []"
| "join_str sep [x] = x"
| "join_str sep (x # y # ys) = x @ sep @ join_str sep (y # ys)"

text \<open>\<^verbatim>\<open>"%d" % n\<close>: the decimal digits of an integer, with a minus sign when negative.\<close>

definition digit_char :: "nat \<Rightarrow> char" where
  "digit_char d = ''0123456789'' ! d"

fun decimal :: "nat \<Rightarrow> string" where
  "decimal n = (if 10 \<le> n then decimal (n div 10) @ [digit_char (n mod 10)] else [digit_char n])"

definition format_d :: "int \<Rightarrow> string" where
  "format_d i = (if 0 \<le> i then decimal (nat i) else CHR ''-'' # decimal (nat (- i)))"

text \<open>
  \<^verbatim>\<open>repr(s)\<close> of a string, as CPython computes it. A string is the list of its code
  points, which the type \<open>char\<close> bounds by 255. The single quote is the delimiter unless
  the text holds a single quote and no double quote; the delimiter and the backslash are
  escaped, tab, line feed and carriage return are written \<^verbatim>\<open>\t \n \r\<close>, and every other
  code point that is not printable (below 0x20, from 0x7F to 0xA0, and 0xAD) is written
  \<^verbatim>\<open>\xhh\<close>.
\<close>

definition hex_digit :: "nat \<Rightarrow> char" where
  "hex_digit k = ''0123456789abcdef'' ! k"

definition printable :: "char \<Rightarrow> bool" where
  "printable c = (32 \<le> (of_char c :: nat) \<and>
                  \<not> (127 \<le> (of_char c :: nat) \<and> (of_char c :: nat) \<le> 160) \<and>
                  (of_char c :: nat) \<noteq> 173)"

definition repr_char :: "char \<Rightarrow> char \<Rightarrow> string" where
  "repr_char q c =
     (if c = q \<or> c = CHR 0x5C then [CHR 0x5C, c]
      else if c = CHR 0x09 then [CHR 0x5C, CHR ''t'']
      else if c = CHR 0x0A then [CHR 0x5C, CHR ''n'']
      else if c = CHR 0x0D then [CHR 0x5C, CHR ''r'']
      else if \<not> printable c
        then [CHR 0x5C, CHR ''x'', hex_digit ((of_char c :: nat) div 16), hex_digit ((of_char c :: nat) mod 16)]
      else [c])"

definition py_repr :: "string \<Rightarrow> string" where
  "py_repr s =
     (let q = (if CHR 0x27 \<in> set s \<and> CHR 0x22 \<notin> set s then CHR 0x22 else CHR 0x27)
      in [q] @ concat (map (repr_char q) s) @ [q])"

text \<open>\<^verbatim>\<open>s.partition("\n")[0::2]\<close>: the text before the first line feed and the text after it.\<close>

definition partition_nl :: "string \<Rightarrow> string \<times> string" where
  "partition_nl s = (takeWhile (\<lambda>c. c \<noteq> CHR 0x0A) s, drop 1 (dropWhile (\<lambda>c. c \<noteq> CHR 0x0A) s))"

text \<open>A token carries the span of the source text: begin and end, each a line and a column.\<close>

type_synonym span = "(int \<times> int) \<times> (int \<times> int)"

type_synonym token = "span option"

section \<open>Values and expressions (datatypes.py, referenced by the builder)\<close>

text \<open>
  Modelled from the spec: the Value classes of datatypes.py and the ElementProperty class of
  element.py, which are not part of the sources at hand. A property object is held by
  reference, as the pair of its owning element and its name (\<open>PropertyRef\<close>); an element is
  held by its address in the heap (\<open>ElementV\<close>).
\<close>

type_synonym prop_ref = "nat \<times> string"

datatype val =
    Number real
  | Percentage real
  | Angle real string
  | Time real string
  | String string
  | Vec4 real real real real
  | EnumMember string int
  | FlagMember string int
  | ElementV nat
  | UnaryOp string val
  | BinOp string val val
  | Call string "val list"
  | PropertyRef nat string

datatype vtype =
    ValueType string
  | EnumType string "(string \<times> int) list"
  | FlagType string "(string \<times> int) list"

section \<open>Exceptions\<close>

text \<open>
  Every exception the builder or an element can raise. \<open>CircularReferenceError\<close> carries
  \<^verbatim>\<open>ex.paths\<close>, a list of paths of property objects. \<open>OutOfFuel\<close> is what the model returns
  when the recursion budget is used up: Python either raises RecursionError there or
  does not return.
\<close>

datatype py_exn =
    SceneBuilderError string
  | NotImplementedError
  | FileNotFoundError string
  | OSError string
  | KeyError string
  | IndexError
  | TypeError string
  | ValueError
  | AttributeError
  | AssertionError
  | ZeroDivisionError
  | ElementError string
  | ElementPropertyDefinedError string
  | ElementPropertyReadonlyError string
  | ElementPropertyConstantError string
  | CircularReferenceError "prop_ref list list"
  | OutOfFuel

section \<open>The syntax tree (parser.py, referenced by the builder)\<close>

text \<open>
  Modelled from the spec: the node classes of parser.py, one constructor per class, with the
  attributes the builder reads. \<open>NScene\<close> is the root node of a parsed file: a create node of
  class Scene, whose element is \<^verbatim>\<open>"Scene"\<close> and which has no name.
\<close>

datatype node =
    NInclude token "string list"
  | NTemplate token string "string option" "node list"
  | NCreate token string "string option" "node list"
  | NScene token "node list"
  | NDefine token string node
  | NAssign token string node
  | NMemberAccess token node string
  | NUnaryOp token string node
  | NBinOp token string node node
  | NNumber token real "string option"
  | NString token string
  | NCall token string "node list"
  | NName token string

section \<open>Elements and their property tables\<close>

text \<open>
  The element classes the sources name: those of drawables.py, and Scene and Animation,
  which drawables.py and the builder import.
\<close>

datatype element_type =
    BaseDrawable | Drawable | Rectangle | Circle | Ellipse | Arc | Line | Image | Text
  | Scene | Animation

fun class_name :: "element_type \<Rightarrow> string" where
  "class_name BaseDrawable = ''BaseDrawable''"
| "class_name Drawable = ''Drawable''"
| "class_name Rectangle = ''Rectangle''"
| "class_name Circle = ''Circle''"
| "class_name Ellipse = ''Ellipse''"
| "class_name Arc = ''Arc''"
| "class_name Line = ''Line''"
| "class_name Image = ''Image''"
| "class_name Text = ''Text''"
| "class_name Scene = ''Scene''"
| "class_name Animation = ''Animation''"

text \<open>\<^verbatim>\<open>isinstance(x, Drawable)\<close>, \<^verbatim>\<open>isinstance(x, Animation)\<close> and
  \<^verbatim>\<open>isinstance(x, BaseDrawable)\<close>, by the class statements of drawables.py.\<close>

fun is_Drawable :: "element_type \<Rightarrow> bool" where
  "is_Drawable BaseDrawable = False"
| "is_Drawable Scene = False"
| "is_Drawable Animation = False"
| "is_Drawable _ = True"

fun is_Animation :: "element_type \<Rightarrow> bool" where
  "is_Animation Animation = True"
| "is_Animation _ = False"

definition is_BaseDrawable :: "element_type \<Rightarrow> bool" where
  "is_BaseDrawable t = (t = BaseDrawable \<or> is_Drawable t)"

text \<open>
  Modelled from the spec: the Element and ElementProperty classes of element.py, which is not
  part of the sources at hand. A property has a stored expression, its declared types, an
  optional relative dimension and the two flags; an element has its class, a parent
  reference, its ordered children and its property table in insertion order. The lists
  \<open>elements\<close> and \<open>animations\<close> are those of \<^verbatim>\<open>BaseDrawable.__init__\<close>.
\<close>

record property =
  p_value :: val
  p_types :: "vtype list"
  p_relative :: "string option"
  p_readonly :: bool
  p_constant :: bool

record element =
  cls :: element_type
  parent :: "nat option"
  children :: "nat list"
  properties :: "(string \<times> property) list"
  elements :: "nat list"
  animations :: "nat list"

text \<open>Objects live in a heap, addressed by natural numbers.\<close>

type_synonym heap = "nat \<Rightarrow> element"

type_synonym hres = "(py_exn \<times> heap) + heap"

text \<open>
  Modelled from the spec: the constructor of an element class followed by \<^verbatim>\<open>on_init\<close>
  gives an element with no parent, no child and no property.
\<close>

definition new_element :: "element_type \<Rightarrow> element" where
  "new_element t = \<lparr>cls = t, parent = None, children = [], properties = [],
                     elements = [], animations = []\<rparr>"

section \<open>The environment of a build\<close>

text \<open>
  What the builder takes from outside the two source files, as parameters: the file system
  and the parser (\<open>read_parse\<close> is \<^verbatim>\<open>parse(open(filename).read())\<close>), the functions of
  \<^verbatim>\<open>os.path\<close>, the scenes directory, the text of the parser's \<^verbatim>\<open>_units\<close>, the function
  table, the angle and time unit names, what element.py derives from a value (the types of
  a definition, the type check of an assignment, the text of its exceptions), the depth of
  recursion that Python allows, and the hooks of the classes defined outside drawables.py.
\<close>

record env =
  read_parse :: "string \<Rightarrow> py_exn + node"
  isfile :: "string \<Rightarrow> bool"
  join :: "string list \<Rightarrow> string"
  abspath :: "string \<Rightarrow> string"
  dirname :: "string \<Rightarrow> string"
  scenes_dir :: string
  units_text :: string
  function_table :: "string \<Rightarrow> (val list \<Rightarrow> py_exn + val) option"
  angle_units :: "string list"
  time_units :: "string list"
  infer_types :: "val \<Rightarrow> vtype list"
  type_compatible :: "vtype list \<Rightarrow> val \<Rightarrow> bool"
  recursion_limit :: nat
  exn_text :: "py_exn \<Rightarrow> string"
  element_types :: "element_type list"
  ext_add :: "element_type \<Rightarrow> heap \<Rightarrow> nat \<Rightarrow> nat \<Rightarrow> hres"
  ext_on_ready :: "element_type \<Rightarrow> heap \<Rightarrow> nat \<Rightarrow> hres"
  on_element :: "element_type \<Rightarrow> heap \<Rightarrow> nat \<Rightarrow> nat \<Rightarrow> hres"
  on_created :: "element_type \<Rightarrow> heap \<Rightarrow> nat \<Rightarrow> hres"

section \<open>Element operations\<close>

definition lookup_property :: "heap \<Rightarrow> nat \<Rightarrow> string \<Rightarrow> property option" where
  "lookup_property h e name = map_of (properties (h e)) name"

text \<open>
  Modelled from the spec: \<^verbatim>\<open>Element.get\<close> returns the property object of that name on
  this element only, and raises KeyError when there is none.
\<close>

definition Element_get :: "heap \<Rightarrow> nat \<Rightarrow> string \<Rightarrow> py_exn + val" where
  "Element_get h e name =
     (case lookup_property h e name of
        None \<Rightarrow> Inl (KeyError name)
      | Some p \<Rightarrow> Inr (PropertyRef e name))"

text \<open>
  Modelled from the spec: \<^verbatim>\<open>Element.define\<close> fails when the name exists and inserts
  otherwise, without evaluating.
\<close>

definition Element_define ::
  "env \<Rightarrow> nat \<Rightarrow> string \<Rightarrow> val \<Rightarrow> vtype list option \<Rightarrow> string option \<Rightarrow> bool \<Rightarrow> bool \<Rightarrow> heap \<Rightarrow> hres" where
  "Element_define E e name v tys rel ro co h =
     (case lookup_property h e name of
        Some p \<Rightarrow> Inl (ElementPropertyDefinedError name, h)
      | None \<Rightarrow>
          Inr (h(e := (h e)\<lparr>properties := properties (h e) @
                 [(name, \<lparr>p_value = v,
                           p_types = (case tys of None \<Rightarrow> infer_types E v | Some ts \<Rightarrow> ts),
                           p_relative = rel, p_readonly = ro, p_constant = co\<rparr>)]\<rparr>)))"

text \<open>
  Modelled from the spec: the search for the circular references that storing the
  expression \<open>v\<close> in the property \<open>t\<close> would introduce. The property references of an
  expression are followed through the stored expressions; every way back to \<open>t\<close> is
  reported as the full cycle, the ordered sequence of properties from the first occurrence
  of \<open>t\<close> back to its repeat. The search is recursive and its depth is bounded: \<open>None\<close>
  is the search that went deeper than the bound.
\<close>

fun refs :: "val \<Rightarrow> prop_ref list" where
  "refs (UnaryOp op a) = refs a"
| "refs (BinOp op a b) = refs a @ refs b"
| "refs (Call f args) = concat (map refs args)"
| "refs (PropertyRef e name) = [(e, name)]"
| "refs v = []"

fun paths_to :: "nat \<Rightarrow> heap \<Rightarrow> prop_ref \<Rightarrow> prop_ref list \<Rightarrow> val \<Rightarrow> prop_ref list list option" where
  "paths_to 0 h t acc v = None"
| "paths_to (Suc n) h t acc v =
     map_option concat
       (those (map (\<lambda>r. if r = t then Some [rev (r # acc)]
                         else (case lookup_property h (fst r) (snd r) of
                                 None \<Rightarrow> Some []
                               | Some p \<Rightarrow> paths_to n h t (r # acc) (p_value p)))
                 (refs v)))"

definition circular_paths :: "env \<Rightarrow> heap \<Rightarrow> prop_ref \<Rightarrow> val \<Rightarrow> prop_ref list list option" where
  "circular_paths E h t v = paths_to (recursion_limit E) h t [t] v"

text \<open>
  Modelled from the spec: the circular references themselves. A chain from the expression
  \<open>v\<close> back to the property \<open>t\<close>: each property of the list is referenced by the
  expression before it (the first by \<open>v\<close>, the next by the expression stored in the first,
  and so on), and the list ends at the first occurrence of \<open>t\<close>. A cycle of \<open>t\<close> is \<open>t\<close>
  followed by such a chain.
\<close>

fun ref_chain :: "heap \<Rightarrow> prop_ref \<Rightarrow> val \<Rightarrow> prop_ref list \<Rightarrow> bool" where
  "ref_chain h t v [] = False"
| "ref_chain h t v (r # q) =
     (r \<in> set (refs v) \<and>
      (if r = t then q = []
       else (case lookup_property h (fst r) (snd r) of
               None \<Rightarrow> False
             | Some p \<Rightarrow> ref_chain h t (p_value p) q)))"


text \<open>
  Modelled from the spec: \<^verbatim>\<open>Element.set\<close> fails if the property is absent, if ReadOnly is
  set, if Constant is set, or if the new expression would introduce a circular reference;
  otherwise it stores the new expression, after the check that the type tag is compatible.
\<close>

definition store_value :: "string \<Rightarrow> val \<Rightarrow> (string \<times> property) list \<Rightarrow> (string \<times> property) list" where
  "store_value name v ps = map (\<lambda>(k, p). if k = name then (k, p\<lparr>p_value := v\<rparr>) else (k, p)) ps"

definition Element_set :: "env \<Rightarrow> nat \<Rightarrow> string \<Rightarrow> val \<Rightarrow> heap \<Rightarrow> hres" where
  "Element_set E e name v h =
     (case lookup_property h e name of
        None \<Rightarrow> Inl (KeyError name, h)
      | Some p \<Rightarrow>
          if p_readonly p then Inl (ElementPropertyReadonlyError name, h)
          else if p_constant p then Inl (ElementPropertyConstantError name, h)
          else (case circular_paths E h (e, name) v of
                  None \<Rightarrow> Inl (OutOfFuel, h)
                | Some (c # cs) \<Rightarrow> Inl (CircularReferenceError (c # cs), h)
                | Some [] \<Rightarrow>
                    if \<not> type_compatible E (p_types p) v then Inl (TypeError name, h)
                    else Inr (h(e := (h e)\<lparr>properties := store_value name v (properties (h e))\<rparr>))))"

text \<open>
  Modelled from the spec: \<^verbatim>\<open>Element.add\<close> inserts the child into the parent's children and
  sets the child's parent reference.
\<close>

definition Element_add :: "heap \<Rightarrow> nat \<Rightarrow> nat \<Rightarrow> heap" where
  "Element_add h p c =
     (let h1 = h(p := (h p)\<lparr>children := children (h p) @ [c]\<rparr>)
      in h1(c := (h1 c)\<lparr>parent := Some p\<rparr>))"

text \<open>\<^verbatim>\<open>BaseDrawable.add\<close> (drawables.py).\<close>

definition BaseDrawable_add :: "heap \<Rightarrow> nat \<Rightarrow> nat \<Rightarrow> hres" where
  "BaseDrawable_add h p c =
     (let h1 = Element_add h p c in
      if is_Drawable (cls (h1 c)) then Inr (h1(p := (h1 p)\<lparr>elements := elements (h1 p) @ [c]\<rparr>))
      else if is_Animation (cls (h1 c)) then Inr (h1(p := (h1 p)\<lparr>animations := animations (h1 p) @ [c]\<rparr>))
      else Inl (NotImplementedError, h1))"

text \<open>\<^verbatim>\<open>parent.add(element)\<close>, dispatched on the class of the parent.\<close>

definition element_add :: "env \<Rightarrow> heap \<Rightarrow> nat \<Rightarrow> nat \<Rightarrow> hres" where
  "element_add E h p c =
     (if is_BaseDrawable (cls (h p)) then BaseDrawable_add h p c else ext_add E (cls (h p)) h p c)"

section \<open>The default properties of the drawables (drawables.py)\<close>

text \<open>
  An \<^verbatim>\<open>on_ready\<close> hook is a sequence of \<^verbatim>\<open>define\<close> and \<^verbatim>\<open>set\<close> calls; the first one
  that raises ends it. \<open>with_get\<close> is a \<^verbatim>\<open>self.get(name)\<close> in the argument of such a call:
  it is evaluated before the call and raises KeyError when the name is not defined.
\<close>

fun run_ops :: "(heap \<Rightarrow> hres) list \<Rightarrow> heap \<Rightarrow> hres" where
  "run_ops [] h = Inr h"
| "run_ops (f # fs) h = (case f h of Inl x \<Rightarrow> Inl x | Inr h1 \<Rightarrow> run_ops fs h1)"

definition with_get :: "nat \<Rightarrow> string \<Rightarrow> (val \<Rightarrow> heap \<Rightarrow> hres) \<Rightarrow> heap \<Rightarrow> hres" where
  "with_get e name k h = (case Element_get h e name of Inl x \<Rightarrow> Inl (x, h) | Inr p \<Rightarrow> k p h)"

text \<open>\<^verbatim>\<open>xs.index(x)\<close>: the first position of \<open>x\<close>, ValueError (here \<open>None\<close>) when absent.\<close>

fun index_of :: "nat list \<Rightarrow> nat \<Rightarrow> nat option" where
  "index_of [] x = None"
| "index_of (y # ys) x = (if y = x then Some 0 else map_option Suc (index_of ys x))"

text \<open>
  \<^verbatim>\<open>Drawable.on_ready\<close>. The hook of the base class, called first, is modelled from the
  spec as declaring nothing.
\<close>

definition Drawable_on_ready :: "env \<Rightarrow> nat \<Rightarrow> heap \<Rightarrow> hres" where
  "Drawable_on_ready E e h =
     (case parent (h e) of
        None \<Rightarrow> Inl (AttributeError, h)
      | Some p \<Rightarrow>
          (case index_of (children (h p)) e of
             None \<Rightarrow> Inl (ValueError, h)
           | Some i \<Rightarrow>
               run_ops
                 [Element_define E e ''index'' (Number (real i)) None None True True,
                  Element_define E e ''x'' (Number 0) None (Some ''width'') False False,
                  Element_define E e ''y'' (Number 0) None (Some ''height'') False False,
                  Element_define E e ''width'' (Percentage 100) None (Some ''width'') False False,
                  Element_define E e ''height'' (Percentage 100) None (Some ''height'') False False] h))"

definition color_ops :: "env \<Rightarrow> nat \<Rightarrow> (heap \<Rightarrow> hres) list" where
  "color_ops E e =
     [Element_define E e ''color'' (Vec4 255 255 255 255) None None False False,
      with_get e ''color'' (\<lambda>c. Element_define E e ''fill'' c None None False False)]"

definition outline_ops :: "env \<Rightarrow> nat \<Rightarrow> (heap \<Rightarrow> hres) list" where
  "outline_ops E e =
     [Element_define E e ''outline'' (Vec4 0 0 0 0) (Some [ValueType ''Vec4'']) None False False,
      Element_define E e ''outline_width'' (Number 1) None None False False]"

definition Rectangle_on_ready :: "env \<Rightarrow> nat \<Rightarrow> heap \<Rightarrow> hres" where
  "Rectangle_on_ready E e h =
     (case Drawable_on_ready E e h of
        Inl x \<Rightarrow> Inl x
      | Inr h1 \<Rightarrow> run_ops (color_ops E e @ outline_ops E e) h1)"

text \<open>The definitions of centre, diameter and radius that Circle and Ellipse share.\<close>

definition center_ops :: "env \<Rightarrow> nat \<Rightarrow> (heap \<Rightarrow> hres) list" where
  "center_ops E e =
     [with_get e ''width'' (\<lambda>w. Element_define E e ''center_x''
          (BinOp ''-'' (Percentage 50) (BinOp ''/'' w (Number 2))) None (Some ''width'') False False),
      with_get e ''height'' (\<lambda>w. Element_define E e ''center_y''
          (BinOp ''-'' (Percentage 50) (BinOp ''/'' w (Number 2))) None (Some ''height'') False False),
      Element_define E e ''diameter'' (Percentage 100) None (Some ''width'') False False,
      with_get e ''diameter'' (\<lambda>d. Element_define E e ''radius''
          (BinOp ''/'' d (Number 2)) None (Some ''width'') False False)]"

definition position_ops :: "env \<Rightarrow> nat \<Rightarrow> (heap \<Rightarrow> hres) list" where
  "position_ops E e =
     [with_get e ''center_x'' (\<lambda>c. with_get e ''width'' (\<lambda>w.
          Element_set E e ''x'' (BinOp ''-'' c (BinOp ''/'' w (Number 2))))),
      with_get e ''center_y'' (\<lambda>c. with_get e ''height'' (\<lambda>w.
          Element_set E e ''y'' (BinOp ''-'' c (BinOp ''/'' w (Number 2)))))]"

definition Circle_on_ready :: "env \<Rightarrow> nat \<Rightarrow> heap \<Rightarrow> hres" where
  "Circle_on_ready E e h =
     (case Drawable_on_ready E e h of
        Inl x \<Rightarrow> Inl x
      | Inr h1 \<Rightarrow>
          run_ops
            (center_ops E e @ position_ops E e @
             [with_get e ''radius'' (\<lambda>r. Element_set E e ''width'' (BinOp ''*'' r (Number 2))),
              with_get e ''radius'' (\<lambda>r. Element_set E e ''height'' (BinOp ''*'' r (Number 2)))] @
             color_ops E e @ outline_ops E e) h1)"

definition Ellipse_on_ready :: "env \<Rightarrow> nat \<Rightarrow> heap \<Rightarrow> hres" where
  "Ellipse_on_ready E e h =
     (case Drawable_on_ready E e h of
        Inl x \<Rightarrow> Inl x
      | Inr h1 \<Rightarrow>
          run_ops
            (center_ops E e @
             [with_get e ''diameter'' (\<lambda>d. Element_define E e ''diameter_x'' d None (Some ''width'') False False),
              with_get e ''diameter'' (\<lambda>d. Element_define E e ''diameter_y'' d None (Some ''height'') False False),
              with_get e ''diameter_x'' (\<lambda>d. Element_define E e ''radius_x''
                  (BinOp ''/'' d (Number 2)) None (Some ''width'') False False),
              with_get e ''diameter_y'' (\<lambda>d. Element_define E e ''radius_y''
                  (BinOp ''/'' d (Number 2)) None (Some ''height'') False False)] @
             position_ops E e @
             [with_get e ''radius_x'' (\<lambda>r. Element_set E e ''width'' (BinOp ''*'' r (Number 2))),
              with_get e ''radius_y'' (\<lambda>r. Element_set E e ''height'' (BinOp ''*'' r (Number 2)))] @
             color_ops E e @ outline_ops E e) h1)"

definition Arc_on_ready :: "env \<Rightarrow> nat \<Rightarrow> heap \<Rightarrow> hres" where
  "Arc_on_ready E e h =
     (case Ellipse_on_ready E e h of
        Inl x \<Rightarrow> Inl x
      | Inr h1 \<Rightarrow>
          run_ops
            [Element_define E e ''start_angle'' (Angle 0 ''deg'') None None False False,
             Element_define E e ''end_angle'' (Angle 360 ''deg'') None None False False] h1)"

definition Line_on_ready :: "env \<Rightarrow> nat \<Rightarrow> heap \<Rightarrow> hres" where
  "Line_on_ready E e h =
     (case Drawable_on_ready E e h of
        Inl x \<Rightarrow> Inl x
      | Inr h1 \<Rightarrow>
          run_ops
            ([Element_define E e ''x1'' (Number 0) None (Some ''width'') False False,
              Element_define E e ''y1'' (Number 0) None (Some ''height'') False False,
              Element_define E e ''x2'' (Number 0) None (Some ''width'') False False,
              Element_define E e ''y2'' (Number 0) None (Some ''height'') False False,
              with_get e ''x1'' (\<lambda>v. Element_set E e ''x'' v),
              with_get e ''y1'' (\<lambda>v. Element_set E e ''y'' v)] @
             color_ops E e @
             [Element_set E e ''width'' (Number 1)]) h1)"

definition Image_on_ready :: "env \<Rightarrow> nat \<Rightarrow> heap \<Rightarrow> hres" where
  "Image_on_ready E e h =
     (case Drawable_on_ready E e h of
        Inl x \<Rightarrow> Inl x
      | Inr h1 \<Rightarrow> run_ops [Element_define E e ''filename'' (String []) None None False True] h1)"

text \<open>The flag TextAnchor and the enum TextAlignment, with the values Python gives them.\<close>

definition TextAnchor :: "(string \<times> int) list" where
  "TextAnchor = [(''Left'', 1), (''CenterX'', 2), (''Right'', 4), (''Top'', 8), (''CenterY'', 16),
                 (''Bottom'', 32), (''Center'', 18), (''Default'', 18)]"

definition TextAlignment :: "(string \<times> int) list" where
  "TextAlignment = [(''Left'', 1), (''Center'', 2), (''Right'', 3), (''Default'', 1)]"

definition Text_on_ready :: "env \<Rightarrow> nat \<Rightarrow> heap \<Rightarrow> hres" where
  "Text_on_ready E e h =
     (case Drawable_on_ready E e h of
        Inl x \<Rightarrow> Inl x
      | Inr h1 \<Rightarrow>
          run_ops
            ([Element_set E e ''x'' (Percentage 50),
              Element_set E e ''y'' (Percentage 50),
              Element_define E e ''text'' (String []) None None False True,
              Element_define E e ''font'' (String ''arial'') None None False True,
              Element_define E e ''font_size'' (Number 32) None None False False,
              Element_define E e ''anchor'' (FlagMember ''TextAnchor'' 18) None None False True,
              Element_define E e ''alignment'' (EnumMember ''TextAlignment'' 1) None None False True] @
             color_ops E e) h1)"

text \<open>
  \<^verbatim>\<open>element.on_ready()\<close>, dispatched on the class of the element. BaseDrawable has no
  hook of its own; it inherits the one of the base class.
\<close>

definition element_on_ready :: "env \<Rightarrow> nat \<Rightarrow> heap \<Rightarrow> hres" where
  "element_on_ready E e h =
     (case cls (h e) of
        BaseDrawable \<Rightarrow> Inr h
      | Drawable \<Rightarrow> Drawable_on_ready E e h
      | Rectangle \<Rightarrow> Rectangle_on_ready E e h
      | Circle \<Rightarrow> Circle_on_ready E e h
      | Ellipse \<Rightarrow> Ellipse_on_ready E e h
      | Arc \<Rightarrow> Arc_on_ready E e h
      | Line \<Rightarrow> Line_on_ready E e h
      | Image \<Rightarrow> Image_on_ready E e h
      | Text \<Rightarrow> Text_on_ready E e h
      | Scene \<Rightarrow> ext_on_ready E Scene h e
      | Animation \<Rightarrow> ext_on_ready E Animation h e)"

section \<open>Evaluation of expressions\<close>

text \<open>
  Modelled from the spec: the evaluation of datatypes.py and element.py, which are not part
  of the sources at hand. Numbers are real numbers here, not floating point. The arithmetic
  follows the unit rules of the spec: numbers combine with numbers, a unit value is added to
  or subtracted from one of the same kind and unit, a unit value is scaled by a number,
  everything else is a type error, and a zero divisor is an error at evaluation.
\<close>

definition arith :: "string \<Rightarrow> real \<Rightarrow> real \<Rightarrow> py_exn + real" where
  "arith op a b =
     (if op = ''+'' then Inr (a + b)
      else if op = ''-'' then Inr (a - b)
      else if op = ''*'' then Inr (a * b)
      else if op = ''/'' then (if b = 0 then Inl ZeroDivisionError else Inr (a / b))
      else Inl (TypeError op))"

definition additive :: "string \<Rightarrow> bool" where
  "additive op = (op = ''+'' \<or> op = ''-'')"

definition scaling :: "string \<Rightarrow> bool" where
  "scaling op = (op = ''*'' \<or> op = ''/'')"

definition wrap :: "(real \<Rightarrow> val) \<Rightarrow> py_exn + real \<Rightarrow> py_exn + val" where
  "wrap c r = (case r of Inl x \<Rightarrow> Inl x | Inr a \<Rightarrow> Inr (c a))"

definition apply_binop :: "string \<Rightarrow> val \<Rightarrow> val \<Rightarrow> py_exn + val" where
  "apply_binop op x y =
     (case x of
        Number a \<Rightarrow>
          (case y of Number b \<Rightarrow> wrap Number (arith op a b) | _ \<Rightarrow> Inl (TypeError op))
      | Percentage a \<Rightarrow>
          (case y of
             Percentage b \<Rightarrow> if additive op then wrap Percentage (arith op a b) else Inl (TypeError op)
           | Number b \<Rightarrow> if scaling op then wrap Percentage (arith op a b) else Inl (TypeError op)
           | _ \<Rightarrow> Inl (TypeError op))
      | Angle a u \<Rightarrow>
          (case y of
             Angle b w \<Rightarrow>
               if additive op \<and> u = w then wrap (\<lambda>r. Angle r u) (arith op a b) else Inl (TypeError op)
           | Number b \<Rightarrow> if scaling op then wrap (\<lambda>r. Angle r u) (arith op a b) else Inl (TypeError op)
           | _ \<Rightarrow> Inl (TypeError op))
      | Time a u \<Rightarrow>
          (case y of
             Time b w \<Rightarrow>
               if additive op \<and> u = w then wrap (\<lambda>r. Time r u) (arith op a b) else Inl (TypeError op)
           | Number b \<Rightarrow> if scaling op then wrap (\<lambda>r. Time r u) (arith op a b) else Inl (TypeError op)
           | _ \<Rightarrow> Inl (TypeError op))
      | _ \<Rightarrow> Inl (TypeError op))"

definition apply_unary :: "string \<Rightarrow> val \<Rightarrow> py_exn + val" where
  "apply_unary op x =
     (if op = ''-'' \<or> op = ''+'' then
        (let s = (if op = ''-'' then - 1 else 1) in
         case x of
           Number a \<Rightarrow> Inr (Number (s * a))
         | Percentage a \<Rightarrow> Inr (Percentage (s * a))
         | Angle a u \<Rightarrow> Inr (Angle (s * a) u)
         | Time a u \<Rightarrow> Inr (Time (s * a) u)
         | _ \<Rightarrow> Inl (TypeError op))
      else Inl (TypeError op))"

text \<open>The results of a list of evaluations, left to right, up to the first error.\<close>

fun sequence :: "('e + 'a) list \<Rightarrow> 'e + 'a list" where
  "sequence [] = Inr []"
| "sequence (r # rs) =
     (case r of
        Inl x \<Rightarrow> Inl x
      | Inr a \<Rightarrow> (case sequence rs of Inl x \<Rightarrow> Inl x | Inr as \<Rightarrow> Inr (a # as)))"

text \<open>
  Modelled from the spec: the cycle reported when the property \<open>r\<close> is entered again while
  on the visitation stack \<open>stk\<close> (most recent first), from the first occurrence of \<open>r\<close>
  back to the repeat.
\<close>

definition cycle_path :: "prop_ref list \<Rightarrow> prop_ref \<Rightarrow> prop_ref list" where
  "cycle_path stk r = r # rev (takeWhile (\<lambda>x. x \<noteq> r) stk) @ [r]"

text \<open>
  Modelled from the spec: the evaluation of an expression by the unit rules, with the
  visitation stack of the properties being evaluated. A literal returns itself, a property
  evaluates its stored expression, and a percentage stays a percentage. The fuel bounds
  the depth of the evaluation.
\<close>

fun eval :: "env \<Rightarrow> nat \<Rightarrow> heap \<Rightarrow> prop_ref list \<Rightarrow> val \<Rightarrow> py_exn + val" where
  "eval E 0 h stk v = Inl OutOfFuel"
| "eval E (Suc n) h stk v =
     (case v of
        UnaryOp op a \<Rightarrow>
          (case eval E n h stk a of Inl x \<Rightarrow> Inl x | Inr x \<Rightarrow> apply_unary op x)
      | BinOp op a b \<Rightarrow>
          (case eval E n h stk a of
             Inl x \<Rightarrow> Inl x
           | Inr x \<Rightarrow> (case eval E n h stk b of Inl x \<Rightarrow> Inl x | Inr y \<Rightarrow> apply_binop op x y))
      | Call f args \<Rightarrow>
          (case sequence (map (eval E n h stk) args) of
             Inl x \<Rightarrow> Inl x
           | Inr vs \<Rightarrow> (case function_table E f of None \<Rightarrow> Inl (KeyError f) | Some g \<Rightarrow> g vs))
      | PropertyRef e name \<Rightarrow>
          if (e, name) \<in> set stk then Inl (CircularReferenceError [cycle_path stk (e, name)])
          else
            (case lookup_property h e name of
               None \<Rightarrow> Inl (KeyError name)
             | Some p \<Rightarrow> eval E n h ((e, name) # stk) (p_value p))
      | _ \<Rightarrow> Inr v)"


text \<open>
  Modelled from the spec: the value of a property for a consumer that needs pixels. The
  property is evaluated, and a percentage that results is taken of the property of the
  parent that the relative dimension names, itself evaluated in this way, up to the
  concrete dimensions of the root.
\<close>

fun evaluate :: "env \<Rightarrow> nat \<Rightarrow> heap \<Rightarrow> nat \<Rightarrow> string \<Rightarrow> py_exn + val" where
  "evaluate E 0 h e name = Inl OutOfFuel"
| "evaluate E (Suc n) h e name =
     (case lookup_property h e name of
        None \<Rightarrow> Inl (KeyError name)
      | Some p \<Rightarrow>
          (case eval E n h [] (PropertyRef e name) of
             Inl x \<Rightarrow> Inl x
           | Inr (Percentage pc) \<Rightarrow>
               (case p_relative p of
                  None \<Rightarrow> Inr (Percentage pc)
                | Some r \<Rightarrow>
                    (case parent (h e) of
                       None \<Rightarrow> Inl AttributeError
                     | Some pa \<Rightarrow>
                         (case evaluate E n h pa r of
                            Inl x \<Rightarrow> Inl x
                          | Inr (Number w) \<Rightarrow> Inr (Number (pc / 100 * w))
                          | Inr y \<Rightarrow> Inl (TypeError r))))
           | Inr x \<Rightarrow> Inr x))"

section \<open>The scene builder (scenebuilder.py)\<close>

text \<open>
  The template registry maps a name to a Template node or to an element class.
\<close>

datatype template_entry =
    Tpl token string "string option" "node list"
  | Cls element_type

text \<open>
  The state of a SceneBuilder, with the heap of the elements built so far. The stacks grow
  at the end, as the Python lists do.
\<close>

record builder =
  templates :: "string \<Rightarrow> template_entry option"
  b_elements :: "nat list"
  b_types :: "vtype list"
  search_paths :: "string list"
  b_including :: "string list"
  b_included :: "string set"
  heap :: heap
  next_id :: nat

text \<open>What \<^verbatim>\<open>_build\<close> returns: None, an element or a value.\<close>

datatype result = RNone | RElement nat | RValue val

type_synonym bres = "(py_exn \<times> builder) + (result \<times> builder)"

definition ext :: string where
  "ext = ''.anim''"

text \<open>\<^verbatim>\<open>SceneBuilder.__init__\<close>; the registry and the two stacks are set by \<open>build\<close>.\<close>

definition init_builder :: "env \<Rightarrow> builder" where
  "init_builder E =
     \<lparr>templates = (\<lambda>n. None), b_elements = [], b_types = [], search_paths = [scenes_dir E],
      b_including = [], b_included = {}, heap = (\<lambda>a. new_element Scene), next_id = 0\<rparr>"

text \<open>\<^verbatim>\<open>_push_element\<close> and \<^verbatim>\<open>_push_type\<close>: the entry and the exit of the context manager.\<close>

definition push_element :: "nat \<Rightarrow> builder \<Rightarrow> builder" where
  "push_element e st = st\<lparr>b_elements := b_elements st @ [e]\<rparr>"

definition pop_element :: "nat \<Rightarrow> builder \<Rightarrow> (py_exn \<times> builder) + builder" where
  "pop_element e st =
     (if b_elements st = [] then Inl (IndexError, st)
      else if last (b_elements st) \<noteq> e then Inl (AssertionError, st\<lparr>b_elements := butlast (b_elements st)\<rparr>)
      else Inr (st\<lparr>b_elements := butlast (b_elements st)\<rparr>))"

definition push_type :: "vtype \<Rightarrow> builder \<Rightarrow> builder" where
  "push_type t st = st\<lparr>b_types := b_types st @ [t]\<rparr>"

definition pop_type :: "vtype \<Rightarrow> builder \<Rightarrow> (py_exn \<times> builder) + builder" where
  "pop_type t st =
     (if b_types st = [] then Inl (IndexError, st)
      else if last (b_types st) \<noteq> t then Inl (AssertionError, st\<lparr>b_types := butlast (b_types st)\<rparr>)
      else Inr (st\<lparr>b_types := butlast (b_types st)\<rparr>))"

text \<open>\<^verbatim>\<open>_create_error\<close> and \<^verbatim>\<open>_fail\<close>. \<^verbatim>\<open>if after:\<close> holds for a non-empty string.\<close>

definition span_text :: "span \<Rightarrow> string" where
  "span_text sp =
     (case sp of ((bl, bc), (el, ec)) \<Rightarrow>
        '' at '' @ format_d bl @ '':'' @ format_d bc @
        '' to '' @ format_d el @ '':'' @ format_d ec)"

definition after_text :: "string option \<Rightarrow> string" where
  "after_text after = (case after of None \<Rightarrow> [] | Some a \<Rightarrow> if a = [] then [] else nl @ a)"

definition create_error :: "string \<Rightarrow> string option \<Rightarrow> token \<Rightarrow> py_exn" where
  "create_error message after tok =
     SceneBuilderError
       (case tok of
          Some sp \<Rightarrow> message @ span_text sp @ after_text after
        | None \<Rightarrow> message @ after_text after)"

definition fail :: "builder \<Rightarrow> string \<Rightarrow> string option \<Rightarrow> token \<Rightarrow> (py_exn \<times> builder) + 'a" where
  "fail st message after tok = Inl (create_error message after tok, st)"

text \<open>\<^verbatim>\<open>_get_template\<close>\<close>

definition get_template :: "builder \<Rightarrow> string \<Rightarrow> token \<Rightarrow> (py_exn \<times> builder) + template_entry" where
  "get_template st name tok =
     (case templates st name of
        None \<Rightarrow> Inl (create_error (''Creating undefined '' @ py_repr name @ '' template'') None tok, st)
      | Some t \<Rightarrow> Inr t)"

text \<open>\<^verbatim>\<open>template.inherit or "Drawable"\<close>\<close>

definition inherit_or_default :: "string option \<Rightarrow> string" where
  "inherit_or_default inh = (case inh of None \<Rightarrow> ''Drawable'' | Some s \<Rightarrow> if s = [] then ''Drawable'' else s)"

text \<open>\<^verbatim>\<open>_get_element_type\<close>; the recursive call passes no token.\<close>

fun get_element_type :: "nat \<Rightarrow> builder \<Rightarrow> string \<Rightarrow> token \<Rightarrow> (py_exn \<times> builder) + element_type" where
  "get_element_type 0 st name tok = Inl (OutOfFuel, st)"
| "get_element_type (Suc n) st name tok =
     (case get_template st name tok of
        Inl x \<Rightarrow> Inl x
      | Inr (Tpl t nm inh ch) \<Rightarrow> get_element_type n st (inherit_or_default inh) None
      | Inr (Cls ty) \<Rightarrow> Inr ty)"

text \<open>
  \<^verbatim>\<open>_get_property\<close>: the loop over the element and its ancestors; the fuel counts the
  iterations.
\<close>

fun get_property :: "nat \<Rightarrow> builder \<Rightarrow> nat option \<Rightarrow> string \<Rightarrow> token \<Rightarrow> (py_exn \<times> builder) + val" where
  "get_property n st None name tok = fail st (''Undefined property '' @ py_repr name) None tok"
| "get_property 0 st (Some e) name tok = Inl (OutOfFuel, st)"
| "get_property (Suc n) st (Some e) name tok =
     (case Element_get (heap st) e name of
        Inr p \<Rightarrow> Inr p
      | Inl (KeyError k) \<Rightarrow> get_property n st (parent (heap st e)) name tok
      | Inl x \<Rightarrow> Inl (x, st))"

text \<open>\<^verbatim>\<open>_find_scene_file\<close>: the loop over the reversed search paths, then the failure.\<close>

fun first_file :: "env \<Rightarrow> string \<Rightarrow> string list \<Rightarrow> string option" where
  "first_file E p [] = None"
| "first_file E p (d # ds) =
     (let filename = join E [d, p] in if isfile E filename then Some filename else first_file E p ds)"

definition find_scene_file :: "env \<Rightarrow> builder \<Rightarrow> string list \<Rightarrow> py_exn + string" where
  "find_scene_file E st path =
     (if path = [] then Inl (TypeError ''join'')
      else
        let p = join E path @ ext in
        case first_file E p (rev (search_paths st)) of
          Some filename \<Rightarrow> Inr filename
        | None \<Rightarrow>
            Inl (FileNotFoundError
                   (''Failed including '' @ join_str ''.'' path @ nl @ ''Tried...'' @ nl @
                    join_str nl (map (\<lambda>d. ''- '' @ join E [d, p]) (rev (search_paths st))))))"

definition is_including :: "builder \<Rightarrow> bool" where
  "is_including st = (length (b_including st) > 0)"

text \<open>\<^verbatim>\<open>_build_Template\<close>\<close>

definition build_Template :: "builder \<Rightarrow> token \<Rightarrow> string \<Rightarrow> string option \<Rightarrow> node list \<Rightarrow> bres" where
  "build_Template st tok name inh ch =
     (case templates st name of
        Some t \<Rightarrow> fail st (''Redeclaration of '' @ py_repr name) None tok
      | None \<Rightarrow> Inr (RNone, st\<lparr>templates := (templates st)(name \<mapsto> Tpl tok name inh ch)\<rparr>))"

text \<open>\<^verbatim>\<open>_build_Number\<close> and \<^verbatim>\<open>_build_String\<close>\<close>

definition build_Number :: "env \<Rightarrow> builder \<Rightarrow> token \<Rightarrow> real \<Rightarrow> string option \<Rightarrow> bres" where
  "build_Number E st tok v unit =
     (case unit of
        None \<Rightarrow> Inr (RValue (Number v), st)
      | Some u \<Rightarrow>
          if u = ''%'' then Inr (RValue (Percentage v), st)
          else if u \<in> set (angle_units E) then Inr (RValue (Angle v u), st)
          else if u \<in> set (time_units E) then Inr (RValue (Time v u), st)
          else fail st (''Unexpected unit '' @ py_repr u @ '', expected any of '' @ units_text E) None tok)"

definition build_String :: "builder \<Rightarrow> token \<Rightarrow> string \<Rightarrow> bres" where
  "build_String st tok s = Inr (RValue (String s), st)"

text \<open>
  \<^verbatim>\<open>_build_Name\<close>: a member of the enum or flag type on top of the type stack, when there
  is one of that name; otherwise the property of that name, from the current element up.
\<close>

definition enum_member :: "builder \<Rightarrow> string \<Rightarrow> val option" where
  "enum_member st name =
     (if b_types st = [] then None
      else
        (case last (b_types st) of
           EnumType en ms \<Rightarrow> map_option (EnumMember en) (map_of ms name)
         | FlagType fn ms \<Rightarrow> map_option (FlagMember fn) (map_of ms name)
         | ValueType t \<Rightarrow> None))"

definition build_Name :: "nat \<Rightarrow> builder \<Rightarrow> token \<Rightarrow> string \<Rightarrow> bres" where
  "build_Name n st tok name =
     (case enum_member st name of
        Some v \<Rightarrow> Inr (RValue v, st)
      | None \<Rightarrow>
          if b_elements st = [] then Inl (IndexError, st)
          else
            (case get_property n st (Some (last (b_elements st))) name tok of
               Inl x \<Rightarrow> Inl x
             | Inr p \<Rightarrow> Inr (RValue p, st)))"

text \<open>
  The part of \<^verbatim>\<open>_build_Create\<close> that attaches the new element to the element on top of
  the stack, when there is one.
\<close>

definition cannot_add :: "heap \<Rightarrow> nat \<Rightarrow> nat \<Rightarrow> token \<Rightarrow> py_exn" where
  "cannot_add h p e tok =
     create_error (''Cannot add '' @ class_name (cls (h e)) @ '' to '' @ class_name (cls (h p))) None tok"

definition attach :: "env \<Rightarrow> builder \<Rightarrow> nat \<Rightarrow> token \<Rightarrow> (py_exn \<times> builder) + builder" where
  "attach E st e tok =
     (if b_elements st = [] then Inr st
      else
        let p = last (b_elements st) in
        case element_add E (heap st) p e of
          Inl (NotImplementedError, h) \<Rightarrow> Inl (cannot_add h p e tok, st\<lparr>heap := h\<rparr>)
        | Inl (x, h) \<Rightarrow> Inl (x, st\<lparr>heap := h\<rparr>)
        | Inr h \<Rightarrow>
            (case on_element E (cls (h p)) h p e of
               Inl (NotImplementedError, h') \<Rightarrow> Inl (cannot_add h' p e tok, st\<lparr>heap := h'\<rparr>)
             | Inl (x, h') \<Rightarrow> Inl (x, st\<lparr>heap := h'\<rparr>)
             | Inr h' \<Rightarrow> Inr (st\<lparr>heap := h'\<rparr>)))"

text \<open>
  The end of \<^verbatim>\<open>_build_Create\<close>: the hook \<^verbatim>\<open>on_created\<close>, whose ElementError becomes a
  build error. Modelled from the spec: the exceptions that are ElementErrors.
\<close>

fun is_ElementError :: "py_exn \<Rightarrow> bool" where
  "is_ElementError (ElementError m) = True"
| "is_ElementError (ElementPropertyDefinedError m) = True"
| "is_ElementError (ElementPropertyReadonlyError m) = True"
| "is_ElementError (ElementPropertyConstantError m) = True"
| "is_ElementError (CircularReferenceError ps) = True"
| "is_ElementError _ = False"

definition created :: "env \<Rightarrow> builder \<Rightarrow> nat \<Rightarrow> token \<Rightarrow> bres" where
  "created E st e tok =
     (case on_created E (cls (heap st e)) (heap st) e of
        Inl (x, h) \<Rightarrow>
          if is_ElementError x
          then Inl (create_error (exn_text E x @ '' in '' @ class_name (cls (h e))) None tok, st\<lparr>heap := h\<rparr>)
          else Inl (x, st\<lparr>heap := h\<rparr>)
      | Inr h \<Rightarrow> Inr (RElement e, st\<lparr>heap := h\<rparr>))"

text \<open>The end of \<^verbatim>\<open>_build_Define\<close>: the definition on the current element.\<close>

definition define_value :: "env \<Rightarrow> builder \<Rightarrow> token \<Rightarrow> string \<Rightarrow> val \<Rightarrow> bres" where
  "define_value E st tok name v =
     (if b_elements st = [] then Inl (IndexError, st)
      else
        let e = last (b_elements st) in
        case Element_define E e name v None None False False (heap st) of
          Inl (ElementPropertyDefinedError m, h) \<Rightarrow>
            Inl (create_error (exn_text E (ElementPropertyDefinedError m) @ '' in '' @
                               class_name (cls (h e))) None tok, st\<lparr>heap := h\<rparr>)
        | Inl (x, h) \<Rightarrow> Inl (x, st\<lparr>heap := h\<rparr>)
        | Inr h \<Rightarrow> Inr (RNone, st\<lparr>heap := h\<rparr>))"

text \<open>
  The end of \<^verbatim>\<open>_build_Assign\<close>: the assignment on the current element, and the build error
  for each exception it catches. The elaboration of a circular reference joins the names of
  the properties of each path with an arrow, one path a line.
\<close>

definition paths_text :: "prop_ref list list \<Rightarrow> string" where
  "paths_text paths = join_str nl (map (\<lambda>path. join_str '' -> '' (map snd path)) paths)"

definition assign_value :: "env \<Rightarrow> builder \<Rightarrow> token \<Rightarrow> string \<Rightarrow> val \<Rightarrow> bres" where
  "assign_value E st tok name v =
     (if b_elements st = [] then Inl (IndexError, st)
      else
        let e = last (b_elements st); c = class_name (cls (heap st e)) in
        case Element_set E e name v (heap st) of
          Inl (TypeError m, h) \<Rightarrow>
            Inl (create_error (exn_text E (TypeError m) @ '' in '' @ c) None tok, st\<lparr>heap := h\<rparr>)
        | Inl (ElementPropertyReadonlyError m, h) \<Rightarrow>
            Inl (create_error (''Cannot assign to readonly property '' @ py_repr name @ '' in '' @ c)
                   None tok, st\<lparr>heap := h\<rparr>)
        | Inl (ElementPropertyConstantError m, h) \<Rightarrow>
            Inl (create_error (exn_text E (ElementPropertyConstantError m) @ '' in '' @ c) None tok,
                 st\<lparr>heap := h\<rparr>)
        | Inl (CircularReferenceError paths, h) \<Rightarrow>
            Inl (create_error (exn_text E (CircularReferenceError paths) @ '' in '' @ c)
                   (Some (''Paths:'' @ nl @ paths_text paths)) tok, st\<lparr>heap := h\<rparr>)
        | Inl (x, h) \<Rightarrow> Inl (x, st\<lparr>heap := h\<rparr>)
        | Inr h \<Rightarrow> Inr (RNone, st\<lparr>heap := h\<rparr>))"

text \<open>The values of a list of results; an operand that is not a value is a type error.\<close>

fun values_of :: "result list \<Rightarrow> val list option" where
  "values_of [] = Some []"
| "values_of (RValue v # rs) = map_option (\<lambda>vs. v # vs) (values_of rs)"
| "values_of (r # rs) = None"

text \<open>\<^verbatim>\<open>node.__class__\<close> is Include or Template.\<close>

fun is_Include_or_Template :: "node \<Rightarrow> bool" where
  "is_Include_or_Template (NInclude t p) = True"
| "is_Include_or_Template (NTemplate t n i c) = True"
| "is_Include_or_Template _ = False"

text \<open>\<^verbatim>\<open>if create.name:\<close>\<close>

definition has_name :: "string option \<Rightarrow> bool" where
  "has_name nm = (case nm of None \<Rightarrow> False | Some s \<Rightarrow> s \<noteq> [])"

text \<open>
  The methods of the builder that call \<^verbatim>\<open>self._build\<close>. The method \<^verbatim>\<open>_build\<close> is
  \<open>build'\<close> below, defined by recursion on the fuel; each of the other methods takes, as
  \<open>self\<close>, the \<^verbatim>\<open>_build\<close> it calls. An exception is returned with the state in which
  it was raised.
\<close>

type_synonym build_fn = "builder \<Rightarrow> node \<Rightarrow> bres"

text \<open>\<^verbatim>\<open>_build_children\<close>, run to its end as each of its callers does.\<close>

fun build_children :: "build_fn \<Rightarrow> builder \<Rightarrow> node list \<Rightarrow> (py_exn \<times> builder) + (result list \<times> builder)" where
  "build_children self st [] = Inr ([], st)"
| "build_children self st (c # cs) =
     (case self st c of
        Inl x \<Rightarrow> Inl x
      | Inr (r, st1) \<Rightarrow>
          (case build_children self st1 cs of
             Inl x \<Rightarrow> Inl x
           | Inr (rs, st2) \<Rightarrow> Inr (r # rs, st2)))"

text \<open>\<^verbatim>\<open>_include\<close>\<close>

definition include' :: "build_fn \<Rightarrow> env \<Rightarrow> builder \<Rightarrow> string \<Rightarrow> bres" where
  "include' self E st filename0 =
     (let filename = abspath E filename0 in
      if filename \<in> set (b_including st) then Inr (RNone, st)
      else if filename \<in> b_included st then Inr (RNone, st)
      else
        let st1 = st\<lparr>search_paths := search_paths st @ [dirname E filename]\<rparr>;
            st2 = st1\<lparr>b_including := b_including st1 @ [filename]\<rparr>
        in
        case read_parse E filename of
          Inl x \<Rightarrow> Inl (x, st2)
        | Inr tree \<Rightarrow>
            (case self st2 tree of
               Inl x \<Rightarrow> Inl x
             | Inr (r, st3) \<Rightarrow>
                 if b_including st3 = [] then Inl (IndexError, st3)
                 else
                   let st4 = st3\<lparr>b_including := butlast (b_including st3)\<rparr>;
                       st5 = st4\<lparr>b_included := insert filename (b_included st4)\<rparr>
                   in
                   if search_paths st5 = [] then Inl (IndexError, st5)
                   else Inr (RNone, st5\<lparr>search_paths := butlast (search_paths st5)\<rparr>)))"

text \<open>\<^verbatim>\<open>_build_Include\<close>\<close>

definition build_Include :: "build_fn \<Rightarrow> env \<Rightarrow> builder \<Rightarrow> token \<Rightarrow> string list \<Rightarrow> bres" where
  "build_Include self E st tok path =
     (case find_scene_file E st path of
        Inl (FileNotFoundError m) \<Rightarrow>
          (case partition_nl m of (message, after) \<Rightarrow> Inl (create_error message (Some after) tok, st))
      | Inl x \<Rightarrow> Inl (x, st)
      | Inr include_filename \<Rightarrow> include' self E st include_filename)"

text \<open>
  \<^verbatim>\<open>_apply_template\<close>. Its own recursion, along the inherit references, has a fuel of its
  own.
\<close>

fun apply_template :: "build_fn \<Rightarrow> env \<Rightarrow> nat \<Rightarrow> builder \<Rightarrow> nat \<Rightarrow> string \<Rightarrow> token \<Rightarrow> (py_exn \<times> builder) + builder" where
  "apply_template self E 0 st element template tok = Inl (OutOfFuel, st)"
| "apply_template self E (Suc n) st element template tok =
     (case templates st template of
        None \<Rightarrow> Inl (create_error (''Creating undefined '' @ py_repr template @ '' template'') None tok, st)
      | Some (Tpl t nm inh ch) \<Rightarrow>
          (case apply_template self E n (push_element element st) element (inherit_or_default inh) tok of
             Inl x \<Rightarrow> Inl x
           | Inr st1 \<Rightarrow>
               (case build_children self st1 ch of
                  Inl x \<Rightarrow> Inl x
                | Inr (rs, st2) \<Rightarrow> pop_element element st2))
      | Some (Cls ty) \<Rightarrow>
          (case element_on_ready E element (heap st) of
             Inl (x, h) \<Rightarrow> Inl (x, st\<lparr>heap := h\<rparr>)
           | Inr h \<Rightarrow> Inr (st\<lparr>heap := h\<rparr>)))"

text \<open>\<^verbatim>\<open>_build_Create\<close>\<close>

definition build_Create :: "build_fn \<Rightarrow> env \<Rightarrow> nat \<Rightarrow> builder \<Rightarrow> token \<Rightarrow> string \<Rightarrow> string option \<Rightarrow> node list \<Rightarrow> bres" where
  "build_Create self E n st tok el nm ch =
     (if has_name nm then Inl (NotImplementedError, st)
      else
        case get_element_type n st el tok of
          Inl x \<Rightarrow> Inl x
        | Inr element_type \<Rightarrow>
            let element = next_id st;
                st1 = st\<lparr>heap := (heap st)(element := new_element element_type), next_id := Suc element\<rparr>
            in
            (case attach E st1 element tok of
               Inl x \<Rightarrow> Inl x
             | Inr st2 \<Rightarrow>
                 (case apply_template self E n st2 element el tok of
                    Inl x \<Rightarrow> Inl x
                  | Inr st3 \<Rightarrow>
                      (case build_children self (push_element element st3) ch of
                         Inl x \<Rightarrow> Inl x
                       | Inr (rs, st4) \<Rightarrow>
                           (case pop_element element st4 of
                              Inl x \<Rightarrow> Inl x
                            | Inr st5 \<Rightarrow> created E st5 element tok)))))"

text \<open>\<^verbatim>\<open>_build_Scene\<close>, and its loop over the children of an included file.\<close>

fun build_Scene_loop :: "build_fn \<Rightarrow> builder \<Rightarrow> node list \<Rightarrow> bres" where
  "build_Scene_loop self st [] = Inr (RNone, st)"
| "build_Scene_loop self st (c # cs) =
     (if is_Include_or_Template c then
        (case self st c of
           Inl x \<Rightarrow> Inl x
         | Inr (r, st1) \<Rightarrow>
             if r \<noteq> RNone then Inl (AssertionError, st1) else build_Scene_loop self st1 cs)
      else build_Scene_loop self st cs)"

definition build_Scene :: "build_fn \<Rightarrow> env \<Rightarrow> nat \<Rightarrow> builder \<Rightarrow> token \<Rightarrow> node list \<Rightarrow> bres" where
  "build_Scene self E n st tok ch =
     (if \<not> is_including st then build_Create self E n st tok ''Scene'' None ch
      else build_Scene_loop self st ch)"

text \<open>\<^verbatim>\<open>_build_Define\<close>\<close>

definition build_Define :: "build_fn \<Rightarrow> env \<Rightarrow> builder \<Rightarrow> token \<Rightarrow> string \<Rightarrow> node \<Rightarrow> bres" where
  "build_Define self E st tok name value =
     (case self st value of
        Inl x \<Rightarrow> Inl x
      | Inr (RValue v, st1) \<Rightarrow> define_value E st1 tok name v
      | Inr (r, st1) \<Rightarrow> Inl (AssertionError, st1))"

text \<open>\<^verbatim>\<open>_build_Assign\<close>\<close>

definition build_Assign :: "build_fn \<Rightarrow> env \<Rightarrow> builder \<Rightarrow> token \<Rightarrow> string \<Rightarrow> node \<Rightarrow> bres" where
  "build_Assign self E st tok name value =
     (if b_elements st = [] then Inl (IndexError, st)
      else
        case lookup_property (heap st) (last (b_elements st)) name of
          None \<Rightarrow>
            fail st (''Assigning value to undefined property '' @ py_repr name @ '' in '' @
                     class_name (cls (heap st (last (b_elements st))))) None tok
        | Some p \<Rightarrow>
            (case p_types p of
               [] \<Rightarrow> Inl (IndexError, st)
             | type # ts \<Rightarrow>
                 (case self (push_type type st) value of
                    Inl x \<Rightarrow> Inl x
                  | Inr (r, st1) \<Rightarrow>
                      (case pop_type type st1 of
                         Inl x \<Rightarrow> Inl x
                       | Inr st2 \<Rightarrow>
                           (case r of
                              RValue v \<Rightarrow> assign_value E st2 tok name v
                            | _ \<Rightarrow> Inl (AssertionError, st2))))))"

text \<open>\<^verbatim>\<open>_build_MemberAccess\<close>\<close>

definition build_MemberAccess :: "build_fn \<Rightarrow> env \<Rightarrow> nat \<Rightarrow> builder \<Rightarrow> token \<Rightarrow> node \<Rightarrow> string \<Rightarrow> bres" where
  "build_MemberAccess self E n st tok value member =
     (case self st value of
        Inl x \<Rightarrow> Inl x
      | Inr (RValue v, st1) \<Rightarrow>
          (case eval E n (heap st1) [] v of
             Inl x \<Rightarrow> Inl (x, st1)
           | Inr (ElementV e) \<Rightarrow>
               (case get_property n st1 (Some e) member tok of
                  Inl x \<Rightarrow> Inl x
                | Inr p \<Rightarrow> Inr (RValue p, st1))
           | Inr w \<Rightarrow> Inl (AssertionError, st1))
      | Inr (r, st1) \<Rightarrow> Inl (AttributeError, st1))"

text \<open>\<^verbatim>\<open>_build_UnaryOp\<close>, \<^verbatim>\<open>_build_BinOp\<close> and \<^verbatim>\<open>_build_Call\<close>\<close>

definition build_UnaryOp :: "build_fn \<Rightarrow> builder \<Rightarrow> token \<Rightarrow> string \<Rightarrow> node \<Rightarrow> bres" where
  "build_UnaryOp self st tok op a =
     (case build_children self st [a] of
        Inl x \<Rightarrow> Inl x
      | Inr (rs, st1) \<Rightarrow>
          (case values_of rs of
             Some [operand] \<Rightarrow> Inr (RValue (UnaryOp op operand), st1)
           | _ \<Rightarrow> Inl (TypeError op, st1)))"

definition build_BinOp :: "build_fn \<Rightarrow> builder \<Rightarrow> token \<Rightarrow> string \<Rightarrow> node \<Rightarrow> node \<Rightarrow> bres" where
  "build_BinOp self st tok op a b =
     (case build_children self st [a, b] of
        Inl x \<Rightarrow> Inl x
      | Inr (rs, st1) \<Rightarrow>
          (case values_of rs of
             Some [lhs, rhs] \<Rightarrow> Inr (RValue (BinOp op lhs rhs), st1)
           | _ \<Rightarrow> Inl (TypeError op, st1)))"

definition build_Call :: "build_fn \<Rightarrow> env \<Rightarrow> builder \<Rightarrow> token \<Rightarrow> string \<Rightarrow> node list \<Rightarrow> bres" where
  "build_Call self E st tok name args =
     (case build_children self st args of
        Inl x \<Rightarrow> Inl x
      | Inr (rs, st1) \<Rightarrow>
          (case function_table E name of
             None \<Rightarrow> Inl (KeyError name, st1)
           | Some f \<Rightarrow>
               (case values_of rs of
                  Some vs \<Rightarrow> Inr (RValue (Call name vs), st1)
                | None \<Rightarrow> Inl (TypeError name, st1))))"

text \<open>\<^verbatim>\<open>_build\<close>: the dispatch on the class of the node.\<close>

definition visit :: "build_fn \<Rightarrow> env \<Rightarrow> nat \<Rightarrow> builder \<Rightarrow> node \<Rightarrow> bres" where
  "visit self E n st node =
     (case node of
        NInclude tok path \<Rightarrow> build_Include self E st tok path
      | NTemplate tok name inh ch \<Rightarrow> build_Template st tok name inh ch
      | NCreate tok el nm ch \<Rightarrow> build_Create self E n st tok el nm ch
      | NScene tok ch \<Rightarrow> build_Scene self E n st tok ch
      | NDefine tok name v \<Rightarrow> build_Define self E st tok name v
      | NAssign tok name v \<Rightarrow> build_Assign self E st tok name v
      | NMemberAccess tok v member \<Rightarrow> build_MemberAccess self E n st tok v member
      | NUnaryOp tok op a \<Rightarrow> build_UnaryOp self st tok op a
      | NBinOp tok op a b \<Rightarrow> build_BinOp self st tok op a b
      | NNumber tok v unit \<Rightarrow> build_Number E st tok v unit
      | NString tok s \<Rightarrow> build_String st tok s
      | NCall tok name args \<Rightarrow> build_Call self E st tok name args
      | NName tok name \<Rightarrow> build_Name n st tok name)"

text \<open>
  The fuel bounds the depth of the calls of \<^verbatim>\<open>_build\<close>, the length of a chain of inherit
  references and the length of a chain of ancestors; without fuel the build ends with
  \<open>OutOfFuel\<close>.
\<close>

primrec build' :: "env \<Rightarrow> nat \<Rightarrow> builder \<Rightarrow> node \<Rightarrow> bres" where
  "build' E 0 = (\<lambda>st node. Inl (OutOfFuel, st))"
| "build' E (Suc n) = visit (build' E n) E n"

text \<open>
  \<^verbatim>\<open>build\<close>, on a syntax tree: the root is a create node of the element Scene, the registry
  is seeded with the element classes, and the result is the Scene element.
\<close>

definition is_scene_root :: "node \<Rightarrow> bool" where
  "is_scene_root node =
     (case node of NScene tok ch \<Rightarrow> True | NCreate tok el nm ch \<Rightarrow> el = ''Scene'' | _ \<Rightarrow> False)"

definition build :: "env \<Rightarrow> nat \<Rightarrow> builder \<Rightarrow> node \<Rightarrow> (py_exn \<times> builder) + (nat \<times> builder)" where
  "build E n st node =
     (if \<not> is_scene_root node then Inl (AssertionError, st)
      else
        let st1 = st\<lparr>templates := map_of (map (\<lambda>t. (class_name t, Cls t)) (element_types E)),
                     b_elements := [], b_types := []\<rparr>
        in
        case build' E n st1 node of
          Inl x \<Rightarrow> Inl x
        | Inr (RElement scene, st2) \<Rightarrow>
            if cls (heap st2 scene) = Scene then Inr (scene, st2\<lparr>b_elements := [], b_types := []\<rparr>)
            else Inl (AssertionError, st2)
        | Inr (r, st2) \<Rightarrow> Inl (AssertionError, st2))"

section \<open>A sample environment\<close>

text \<open>
  An environment and a state on which the theorems below are run: no file exists, paths
  are joined with a slash, the type check accepts every value, the recursion limit is
  that of Python, and the classes outside drawables.py attach any child and declare a
  width and a height.
\<close>

definition sample_env :: env where
  "sample_env =
     \<lparr>read_parse = (\<lambda>f. Inl (OSError f)),
      isfile = (\<lambda>f. False),
      join = join_str ''/'',
      abspath = (\<lambda>f. f),
      dirname = (\<lambda>f. rev (drop 1 (dropWhile (\<lambda>c. c \<noteq> CHR ''/'') (rev f)))),
      scenes_dir = ''/scenes'',
      units_text = ''units'',
      function_table = (\<lambda>f. None),
      angle_units = [''deg'', ''rad''],
      time_units = [''s'', ''ms''],
      infer_types = (\<lambda>v. [ValueType ''Value'']),
      type_compatible = (\<lambda>ts v. True),
      recursion_limit = 1000,
      exn_text = (\<lambda>x. ''error''),
      element_types = [Scene, Animation, BaseDrawable, Drawable, Rectangle, Circle, Ellipse, Arc,
                       Line, Image, Text],
      ext_add = (\<lambda>t h p c. Inr (Element_add h p c)),
      ext_on_ready = (\<lambda>t h e.
         Inr (h(e := (h e)\<lparr>properties := properties (h e) @
                [(''width'', \<lparr>p_value = Number 100, p_types = [ValueType ''Number''],
                              p_relative = None, p_readonly = False, p_constant = False\<rparr>),
                 (''height'', \<lparr>p_value = Number 100, p_types = [ValueType ''Number''],
                               p_relative = None, p_readonly = False, p_constant = False\<rparr>)]\<rparr>))),
      on_element = (\<lambda>t h p c. Inr h),
      on_created = (\<lambda>t h e. Inr h)\<rparr>"

definition sample_templates :: "string \<Rightarrow> template_entry option" where
  "sample_templates = map_of (map (\<lambda>t. (class_name t, Cls t)) (element_types sample_env))"

definition plain :: "val \<Rightarrow> string option \<Rightarrow> bool \<Rightarrow> bool \<Rightarrow> property" where
  "plain v rel ro co = \<lparr>p_value = v, p_types = [ValueType ''Value''], p_relative = rel,
                        p_readonly = ro, p_constant = co\<rparr>"

text \<open>
  A Scene of width 300 at address 0 with one child, a Rectangle at address 1; both are on
  the element stack, as they are while the children of the Rectangle are built.
\<close>

definition sample_heap :: heap where
  "sample_heap =
     ((\<lambda>a. new_element Scene)
        (0 := \<lparr>cls = Scene, parent = None, children = [1],
               properties = [(''width'', plain (Number 300) None False False),
                             (''height'', plain (Number 100) None False False)],
               elements = [1], animations = []\<rparr>))
        (1 := \<lparr>cls = Rectangle, parent = Some 0, children = [],
               properties = [(''index'', plain (Number 0) None True True),
                             (''x'', plain (Number 0) (Some ''width'') False False),
                             (''width'', plain (Percentage 100) (Some ''width'') False False)],
               elements = [], animations = []\<rparr>)"

definition sample_state :: builder where
  "sample_state =
     \<lparr>templates = sample_templates, b_elements = [0, 1], b_types = [],
      search_paths = [''/scenes''], b_including = [], b_included = {}, heap = sample_heap,
      next_id = 2\<rparr>"

text \<open>
  The chain of an element in a heap: the element itself, its parent, and so on up to the
  root, which has no parent.
\<close>

fun is_chain :: "heap \<Rightarrow> nat \<Rightarrow> nat list \<Rightarrow> bool" where
  "is_chain h e [] = False"
| "is_chain h e [a] = (a = e \<and> parent (h e) = None)"
| "is_chain h e (a # b # bs) = (a = e \<and> parent (h e) = Some b \<and> is_chain h b (b # bs))"

definition has_property :: "heap \<Rightarrow> string \<Rightarrow> nat \<Rightarrow> bool" where
  "has_property h name a = (lookup_property h a name \<noteq> None)"

text \<open>The root of a parsed file is a node of class Scene.\<close>

fun is_NScene :: "node \<Rightarrow> bool" where
  "is_NScene (NScene tok ch) = True"
| "is_NScene _ = False"

text \<open>
  An outcome of a build that has added no element: the heap and the next address are those
  of the state before; when the build returned, it returned None and left the element
  stack and the stack of includes in progress as they were.
\<close>

definition keeps_elements :: "builder \<Rightarrow> bres \<Rightarrow> bool" where
  "keeps_elements st res =
     (case res of
        Inl (x, st') \<Rightarrow> heap st' = heap st \<and> next_id st' = next_id st
      | Inr (r, st') \<Rightarrow>
          r = RNone \<and> heap st' = heap st \<and> next_id st' = next_id st \<and>
          b_elements st' = b_elements st \<and> b_including st' = b_including st)"

text \<open>
  The chain of a template name in a registry: the directive lists of the templates met along
  the inherit references, that of the named template first, and the element class the
  references end at.
\<close>

fun resolves :: "(string \<Rightarrow> template_entry option) \<Rightarrow> string \<Rightarrow> node list list \<Rightarrow> element_type \<Rightarrow> bool" where
  "resolves ts name [] ty = (case ts name of Some (Cls c) \<Rightarrow> c = ty | _ \<Rightarrow> False)"
| "resolves ts name (ch # chain) ty =
     (case ts name of
        Some (Tpl t nm inh ch') \<Rightarrow> ch' = ch \<and> resolves ts (inherit_or_default inh) chain ty
      | _ \<Rightarrow> False)"

text \<open>
  The application of a template as the spec words it, base first: the hook \<^verbatim>\<open>on_ready\<close>
  of the element, then the directives of each template of the chain in their declared
  order, from the template nearest to the element class to the named template. The
  element is on the stack once for each template of the chain, and leaves it once after
  each.
\<close>

fun run_levels :: "build_fn \<Rightarrow> nat \<Rightarrow> node list list \<Rightarrow> builder \<Rightarrow> (py_exn \<times> builder) + builder" where
  "run_levels self e [] st = Inr st"
| "run_levels self e (ch # chs) st =
     (case build_children self st ch of
        Inl x \<Rightarrow> Inl x
      | Inr (rs, st1) \<Rightarrow>
          (case pop_element e st1 of
             Inl x \<Rightarrow> Inl x
           | Inr st2 \<Rightarrow> run_levels self e chs st2))"

definition apply_base_first :: "build_fn \<Rightarrow> env \<Rightarrow> builder \<Rightarrow> nat \<Rightarrow> node list list \<Rightarrow> (py_exn \<times> builder) + builder" where
  "apply_base_first self E st e chain =
     (let st0 = st\<lparr>b_elements := b_elements st @ replicate (length chain) e\<rparr> in
      case element_on_ready E e (heap st0) of
        Inl (x, h) \<Rightarrow> Inl (x, st0\<lparr>heap := h\<rparr>)
      | Inr h \<Rightarrow> run_levels self e (rev chain) (st0\<lparr>heap := h\<rparr>))"

text \<open>
  The sample state with two templates, Base (no inherit) and Fancy (inherit Base), and a new
  Drawable at address 2, attached to the Rectangle.
\<close>

definition template_state :: builder where
  "template_state = sample_state
      \<lparr>templates := (templates sample_state)
          (''Base'' \<mapsto> Tpl None ''Base'' None [NDefine None ''speed'' (NNumber None 1 None)],
           ''Fancy'' \<mapsto> Tpl None ''Fancy'' (Some ''Base'') [NAssign None ''speed'' (NNumber None 2 None)]),
       heap := (heap sample_state)
          (1 := (heap sample_state 1)\<lparr>children := [2]\<rparr>,
           2 := (new_element Drawable)\<lparr>parent := Some 1\<rparr>),
       next_id := 3\<rparr>"

text \<open>
  The sample heap with a new Circle at address 2, attached to the Scene of width 300.
\<close>

definition circle_heap :: heap where
  "circle_heap =
     sample_heap
       (0 := (sample_heap 0)\<lparr>children := [1, 2], elements := [1, 2]\<rparr>,
        2 := (new_element Circle)\<lparr>parent := Some 0\<rparr>)"



section \<open>The search for circular references\<close>

text \<open>
  Facts about the search that \<^verbatim>\<open>set\<close> runs: more depth does not change a result, a
  reported path is a cycle of the assigned property, a search that reports nothing means
  that there is no cycle, and the evaluation of an expression that is clear of the assigned
  property does not see the assignment.
\<close>

lemma those_map_all_empty:
  "(map_option concat (those (map f xs)) = Some []) = (\<forall>x\<in>set xs. f x = Some [])"
proof (induction xs)
  case Nil
  then show ?case by simp
next
  case (Cons x xs)
  show ?case
  proof (cases "f x")
    case None
    then show ?thesis by simp
  next
    case (Some y)
    show ?thesis
    proof (cases "those (map f xs)")
      case None
      with Some Cons show ?thesis by auto
    next
      case s: (Some ys)
      with Some Cons show ?thesis by auto
    qed
  qed
qed




lemma paths_to_literal: "refs v = [] \<Longrightarrow> paths_to (Suc n) h t acc v = Some []"
  by simp

lemma circular_literal:
  "refs v = [] \<Longrightarrow> 0 < recursion_limit E \<Longrightarrow> circular_paths E h t v = Some []"
  by (cases "recursion_limit E") (simp_all add: circular_paths_def)


lemma paths_to_clean:
  "(paths_to (Suc n) h t acc v = Some []) =
   (\<forall>r\<in>set (refs v). r \<noteq> t \<and>
      (case lookup_property h (fst r) (snd r) of
         None \<Rightarrow> True
       | Some p \<Rightarrow> paths_to n h t (r # acc) (p_value p) = Some []))"
  unfolding paths_to.simps those_map_all_empty
  by (auto split: option.splits if_splits)

lemma paths_to_clean_acc:
  "paths_to n h t acc v = Some [] \<Longrightarrow> paths_to n h t acc' v = Some []"
proof (induction n arbitrary: acc acc' v)
  case 0
  then show ?case by simp
next
  case (Suc n)
  from Suc.prems show ?case
    unfolding paths_to_clean
    by (auto split: option.splits dest: Suc.IH)
qed





lemma map_of_store_value:
  "map_of ps name = Some p \<Longrightarrow> map_of (store_value name v ps) name = Some (p\<lparr>p_value := v\<rparr>)"
  by (induction ps) (auto simp add: store_value_def split: if_splits)

lemma lookup_after_store:
  "lookup_property h e name = Some p \<Longrightarrow>
   lookup_property (h(e := (h e)\<lparr>properties := store_value name v (properties (h e))\<rparr>)) e name =
     Some (p\<lparr>p_value := v\<rparr>)"
  by (simp add: lookup_property_def map_of_store_value)

lemma lookup_after_store_other:
  "name' \<noteq> name \<Longrightarrow>
   lookup_property (h(e := (h e)\<lparr>properties := store_value name v (properties (h e))\<rparr>)) e name' =
     lookup_property h e name'"
proof -
  have "name' \<noteq> name \<Longrightarrow> map_of (store_value name v ps) name' = map_of ps name'" for ps
    by (induction ps) (auto simp add: store_value_def)
  then show "name' \<noteq> name \<Longrightarrow> ?thesis" by (simp add: lookup_property_def)
qed




lemma paths_to_complete:
  "paths_to n h t acc v = Some [] \<Longrightarrow> \<not> ref_chain h t v q"
proof (induction q arbitrary: n acc v)
  case Nil
  show ?case by simp
next
  case (Cons r q)
  from Cons.prems obtain k where n: "n = Suc k" by (cases n) auto
  show ?case
  proof
    assume c: "ref_chain h t v (r # q)"
    then have r: "r \<in> set (refs v)" by simp
    from bspec [OF Cons.prems [unfolded n paths_to_clean] r]
    have ne: "r \<noteq> t"
      and cl: "case lookup_property h (fst r) (snd r) of None \<Rightarrow> True
               | Some p \<Rightarrow> paths_to k h t (r # acc) (p_value p) = Some []"
      by blast+
    from c ne obtain p where l: "lookup_property h (fst r) (snd r) = Some p"
      and ch: "ref_chain h t (p_value p) q"
      by (auto split: option.splits)
    from cl l have "paths_to k h t (r # acc) (p_value p) = Some []" by simp
    from Cons.IH [OF this] ch show False by simp
  qed
qed

lemma circular_paths_complete:
  "circular_paths E h t v = Some ps \<Longrightarrow> ref_chain h t v q \<Longrightarrow> ps \<noteq> []"
  unfolding circular_paths_def using paths_to_complete by blast






section \<open>Named creation is not implemented\<close>

text \<open>
  Claim C9. Building a Create node that carries a non-empty name raises
  NotImplementedError, whatever the state and the rest of the node; the state in which it is
  raised is the state before the call, so no element has been constructed or attached.
\<close>

theorem create_named_not_implemented:
  "has_name nm \<Longrightarrow> build' E (Suc n) st (NCreate tok el nm ch) = Inl (NotImplementedError, st)"
  by (simp add: visit_def build_Create_def)

theorem create_named_not_implemented_witness:
  "has_name (Some ''box'') \<and>
   build' sample_env (Suc 0) sample_state (NCreate None ''Rectangle'' (Some ''box'') []) =
     Inl (NotImplementedError, sample_state)"
  using create_named_not_implemented [of "Some ''box''" sample_env 0 sample_state None "''Rectangle''" "[]"]
  by (simp add: has_name_def)

section \<open>Including a file once\<close>

text \<open>
  Claim C4. When the absolute path of the file is on the stack of the includes in progress
  or in the set of the completed ones, \<^verbatim>\<open>_include\<close> returns None and leaves the state as it
  is: nothing is raised and nothing is registered. The result is the same whatever the
  file system holds and whatever \<^verbatim>\<open>_build\<close> would do, so no file is read and no tree is
  built.
\<close>

theorem include_again_noop:
  "abspath E f \<in> set (b_including st) \<or> abspath E f \<in> b_included st \<Longrightarrow>
   include' self (E\<lparr>read_parse := rp\<rparr>) st f = Inr (RNone, st)"
  by (auto simp add: include'_def Let_def)

theorem include_again_noop_witness:
  "(abspath sample_env ''/a/b.anim'' \<in> set (b_including (sample_state\<lparr>b_including := [''/a/b.anim'']\<rparr>)) \<or>
    abspath sample_env ''/a/b.anim'' \<in> b_included (sample_state\<lparr>b_including := [''/a/b.anim'']\<rparr>)) \<and>
   include' (build' sample_env 3) (sample_env\<lparr>read_parse := (\<lambda>f. Inr (NScene None []))\<rparr>)
     (sample_state\<lparr>b_including := [''/a/b.anim'']\<rparr>) ''/a/b.anim'' =
     Inr (RNone, sample_state\<lparr>b_including := [''/a/b.anim'']\<rparr>)"
  using include_again_noop [of sample_env "''/a/b.anim''" "sample_state\<lparr>b_including := [''/a/b.anim'']\<rparr>"
      "build' sample_env 3" "\<lambda>f. Inr (NScene None [])"]
  by (simp add: sample_env_def)

text \<open>An include that has returned makes the next include of the same file return at once.\<close>

lemma include_twice:
  "include' self E st f = Inr (r, st') \<Longrightarrow> include' self2 E st' f = Inr (RNone, st')"
  by (auto simp add: include'_def Let_def split: if_splits sum.splits prod.splits)

section \<open>Resolving an include\<close>

lemma first_file_Some:
  "first_file E p ds = Some f \<Longrightarrow>
   \<exists>i<length ds. f = join E [ds ! i, p] \<and> isfile E f \<and> (\<forall>j<i. \<not> isfile E (join E [ds ! j, p]))"
proof (induction ds)
  case Nil
  then show ?case by simp
next
  case (Cons d ds)
  show ?case
  proof (cases "isfile E (join E [d, p])")
    case True
    with Cons.prems have "f = join E [d, p]" by (simp add: Let_def)
    with True show ?thesis by (intro exI [of _ 0]) simp
  next
    case False
    with Cons.prems have "first_file E p ds = Some f" by (simp add: Let_def)
    from Cons.IH [OF this] obtain i where i: "i < length ds" "f = join E [ds ! i, p]" "isfile E f"
      "\<forall>j<i. \<not> isfile E (join E [ds ! j, p])" by blast
    have "\<forall>j<Suc i. \<not> isfile E (join E [(d # ds) ! j, p])"
      using i(4) False by (auto simp add: less_Suc_eq_0_disj)
    with i show ?thesis by (intro exI [of _ "Suc i"]) simp
  qed
qed

lemma first_file_None:
  "(first_file E p ds = None) = (\<forall>d\<in>set ds. \<not> isfile E (join E [d, p]))"
  by (induction ds) (auto simp add: Let_def)

lemma partition_nl_first:
  "CHR 0x0A \<notin> set a \<Longrightarrow> partition_nl (a @ nl @ b) = (a, b)"
proof -
  assume a: "CHR 0x0A \<notin> set a"
  then have "\<forall>x\<in>set a. x \<noteq> CHR 0x0A" by auto
  then have "takeWhile (\<lambda>c. c \<noteq> CHR 0x0A) (a @ CHR 0x0A # b) = a"
    and "dropWhile (\<lambda>c. c \<noteq> CHR 0x0A) (a @ CHR 0x0A # b) = CHR 0x0A # b"
    by (simp_all add: takeWhile_append2 dropWhile_append2)
  then show ?thesis by (simp add: partition_nl_def nl_def)
qed

text \<open>
  Claim C6. The dotted path, joined and given the extension, is looked for in the search
  directories from the last to the first: the file found is in a directory such that no
  later directory holds the file, so the directory appended last (that of the file being
  included) is tried first, and a file is found whenever some directory holds it. When no
  directory holds it, building the Include node fails with a build error whose message is
  the first line of the failure and whose elaboration lists every path tried, in the order
  tried. (The dotted path holds no line feed: its parts are identifiers.)
\<close>

theorem include_resolution:
  assumes "path \<noteq> []"
  shows
   "(\<forall>f. find_scene_file E st path = Inr f \<longrightarrow>
       (\<exists>i<length (search_paths st).
           f = join E [search_paths st ! i, join E path @ ext] \<and> isfile E f \<and>
           (\<forall>j. i < j \<and> j < length (search_paths st) \<longrightarrow>
                \<not> isfile E (join E [search_paths st ! j, join E path @ ext])))) \<and>
    (\<forall>sp d. search_paths st = sp @ [d] \<and> isfile E (join E [d, join E path @ ext]) \<longrightarrow>
       find_scene_file E st path = Inr (join E [d, join E path @ ext])) \<and>
    ((\<exists>d\<in>set (search_paths st). isfile E (join E [d, join E path @ ext])) \<longrightarrow>
       (\<exists>f. find_scene_file E st path = Inr f)) \<and>
    ((\<forall>d\<in>set (search_paths st). \<not> isfile E (join E [d, join E path @ ext])) \<and>
     CHR 0x0A \<notin> set (join_str ''.'' path) \<longrightarrow>
       build' E (Suc n) st (NInclude tok path) =
         Inl (create_error (''Failed including '' @ join_str ''.'' path)
                (Some (''Tried...'' @ nl @
                       join_str nl (map (\<lambda>d. ''- '' @ join E [d, join E path @ ext])
                                     (rev (search_paths st)))))
                tok, st))"
proof (intro conjI allI impI)
  fix f
  assume "find_scene_file E st path = Inr f"
  with assms have ff: "first_file E (join E path @ ext) (rev (search_paths st)) = Some f"
    by (simp add: find_scene_file_def Let_def split: option.splits)
  let ?sp = "search_paths st" and ?p = "join E path @ ext"
  from first_file_Some [OF ff] obtain i where i: "i < length ?sp"
    "f = join E [rev ?sp ! i, ?p]" "isfile E f" "\<forall>j<i. \<not> isfile E (join E [rev ?sp ! j, ?p])"
    by auto
  let ?k = "length ?sp - Suc i"
  have k: "?k < length ?sp" using i(1) by simp
  have fk: "f = join E [?sp ! ?k, ?p]" using i(1,2) by (simp add: rev_nth)
  have "\<not> isfile E (join E [?sp ! j, ?p])" if j: "?k < j" "j < length ?sp" for j
  proof -
    have "length ?sp - Suc j < i" using j i(1) by arith
    with i(4) have "\<not> isfile E (join E [rev ?sp ! (length ?sp - Suc j), ?p])" by blast
    moreover have "rev ?sp ! (length ?sp - Suc j) = ?sp ! j"
      using j by (simp add: rev_nth)
    ultimately show ?thesis by simp
  qed
  with k fk i(3) show "\<exists>i<length ?sp. f = join E [?sp ! i, ?p] \<and> isfile E f \<and>
           (\<forall>j. i < j \<and> j < length ?sp \<longrightarrow> \<not> isfile E (join E [?sp ! j, ?p]))"
    by blast
next
  fix sp d
  assume "search_paths st = sp @ [d] \<and> isfile E (join E [d, join E path @ ext])"
  with assms show "find_scene_file E st path = Inr (join E [d, join E path @ ext])"
    by (simp add: find_scene_file_def Let_def)
next
  assume "\<exists>d\<in>set (search_paths st). isfile E (join E [d, join E path @ ext])"
  then have "first_file E (join E path @ ext) (rev (search_paths st)) \<noteq> None"
    by (simp add: first_file_None)
  with assms show "\<exists>f. find_scene_file E st path = Inr f"
    by (auto simp add: find_scene_file_def Let_def)
next
  assume a: "(\<forall>d\<in>set (search_paths st). \<not> isfile E (join E [d, join E path @ ext])) \<and>
     CHR 0x0A \<notin> set (join_str ''.'' path)"
  then have "first_file E (join E path @ ext) (rev (search_paths st)) = None"
    by (simp add: first_file_None)
  with assms have fs: "find_scene_file E st path =
      Inl (FileNotFoundError ((''Failed including '' @ join_str ''.'' path) @ nl @ (''Tried...'' @ nl @
             join_str nl (map (\<lambda>d. ''- '' @ join E [d, join E path @ ext]) (rev (search_paths st))))))"
    by (simp add: find_scene_file_def Let_def)
  have "CHR 0x0A \<notin> set (''Failed including '' @ join_str ''.'' path)"
    using a by simp
  note partition_nl_first [OF this]
  with fs show "build' E (Suc n) st (NInclude tok path) =
         Inl (create_error (''Failed including '' @ join_str ''.'' path)
                (Some (''Tried...'' @ nl @
                       join_str nl (map (\<lambda>d. ''- '' @ join E [d, join E path @ ext])
                                     (rev (search_paths st)))))
                tok, st)"
    by (simp add: visit_def build_Include_def del: append_assoc)
qed


theorem include_resolution_witness:
  "[''a'', ''b''] \<noteq> [] \<and>
   find_scene_file (sample_env\<lparr>isfile := (\<lambda>f. f = ''/scenes/a/b.anim'' \<or> f = ''/lib/a/b.anim'')\<rparr>)
     (sample_state\<lparr>search_paths := [''/scenes'', ''/lib'']\<rparr>) [''a'', ''b''] = Inr ''/lib/a/b.anim'' \<and>
   build' sample_env (Suc 0) sample_state (NInclude None [''a'', ''b'']) =
     Inl (SceneBuilderError (''Failed including a.b'' @ nl @ ''Tried...'' @ nl @ ''- /scenes/a/b.anim''),
          sample_state)"
  using include_resolution [of "[''a'', ''b'']"
          "sample_env\<lparr>isfile := (\<lambda>f. f = ''/scenes/a/b.anim'' \<or> f = ''/lib/a/b.anim'')\<rparr>"
          "sample_state\<lparr>search_paths := [''/scenes'', ''/lib'']\<rparr>" 0 None]
        include_resolution [of "[''a'', ''b'']" sample_env sample_state 0 None]
  by (simp add: sample_env_def sample_state_def ext_def nl_def create_error_def after_text_def)

section \<open>Containment\<close>

lemma BaseDrawable_add_rejects:
  "p \<noteq> c \<Longrightarrow> \<not> is_Drawable (cls (h c)) \<Longrightarrow> \<not> is_Animation (cls (h c)) \<Longrightarrow>
   BaseDrawable_add h p c = Inl (NotImplementedError, Element_add h p c)"
  by (simp add: BaseDrawable_add_def Element_add_def Let_def)

lemma Element_add_cls: "cls (Element_add h p c a) = cls (h a)"
  by (simp add: Element_add_def Let_def)

text \<open>
  Claim C7. A Create node without a name, whose element type resolves to a class that is
  neither a Drawable nor an Animation, built while the element on top of the stack is a
  BaseDrawable (an element allocated before, so not the address of the new one), fails with
  the build error "Cannot add <class of the child> to <class of the parent>", with the
  span of the node when it has a token.
\<close>

theorem create_rejected_by_parent:
  assumes "\<not> has_name nm"
    and "get_element_type n st el tok = Inr ty"
    and "b_elements st \<noteq> []"
    and "last (b_elements st) \<noteq> next_id st"
    and "is_BaseDrawable (cls (heap st (last (b_elements st))))"
    and "\<not> is_Drawable ty" and "\<not> is_Animation ty"
  shows "\<exists>st'. build' E (Suc n) st (NCreate tok el nm ch) =
           Inl (create_error (''Cannot add '' @ class_name ty @ '' to '' @
                              class_name (cls (heap st (last (b_elements st))))) None tok, st')"
proof -
  let ?p = "last (b_elements st)" and ?e = "next_id st"
  let ?h = "(heap st)(?e := new_element ty)"
  let ?st1 = "st\<lparr>heap := ?h, next_id := Suc ?e\<rparr>"
  have cls: "cls (?h ?e) = ty" "cls (?h ?p) = cls (heap st ?p)"
    using assms(4) by (simp_all add: new_element_def)
  have "BaseDrawable_add ?h ?p ?e = Inl (NotImplementedError, Element_add ?h ?p ?e)"
    using assms(4,6,7) cls by (intro BaseDrawable_add_rejects) simp_all
  then have "element_add E ?h ?p ?e = Inl (NotImplementedError, Element_add ?h ?p ?e)"
    using assms(5) cls by (simp add: element_add_def)
  then have "attach E ?st1 ?e tok =
      Inl (cannot_add (Element_add ?h ?p ?e) ?p ?e tok, ?st1\<lparr>heap := Element_add ?h ?p ?e\<rparr>)"
    using assms(3) by (simp add: attach_def Let_def)
  moreover have "cannot_add (Element_add ?h ?p ?e) ?p ?e tok =
      create_error (''Cannot add '' @ class_name ty @ '' to '' @ class_name (cls (heap st ?p))) None tok"
    using cls by (simp add: cannot_add_def Element_add_cls)
  ultimately show ?thesis
    using assms(1,2) by (simp add: visit_def build_Create_def Let_def)
qed

theorem create_rejected_by_parent_witness:
  "\<not> has_name None \<and>
   get_element_type (Suc 0) sample_state ''Scene'' (Some ((3, 1), (3, 9))) = Inr Scene \<and>
   b_elements sample_state \<noteq> [] \<and>
   last (b_elements sample_state) \<noteq> next_id sample_state \<and>
   is_BaseDrawable (cls (heap sample_state (last (b_elements sample_state)))) \<and>
   \<not> is_Drawable Scene \<and> \<not> is_Animation Scene \<and>
   (\<exists>st'. build' sample_env (Suc (Suc 0)) sample_state (NCreate (Some ((3, 1), (3, 9))) ''Scene'' None []) =
      Inl (SceneBuilderError ''Cannot add Scene to Rectangle at 3:1 to 3:9'', st'))"
proof -
  have h: "\<not> has_name None"
    "get_element_type (Suc 0) sample_state ''Scene'' (Some ((3, 1), (3, 9))) = Inr Scene"
    "b_elements sample_state \<noteq> []"
    "last (b_elements sample_state) \<noteq> next_id sample_state"
    "is_BaseDrawable (cls (heap sample_state (last (b_elements sample_state))))"
    "\<not> is_Drawable Scene" "\<not> is_Animation Scene"
    by (simp_all add: has_name_def sample_state_def sample_heap_def sample_templates_def
          sample_env_def get_template_def is_BaseDrawable_def)
  have "last (b_elements sample_state) = 1" by (simp add: sample_state_def)
  then have c: "class_name (cls (heap sample_state (last (b_elements sample_state)))) = ''Rectangle''"
    by (simp add: sample_state_def sample_heap_def)
  have e: "create_error (''Cannot add '' @ class_name Scene @ '' to '' @ ''Rectangle'') None (Some ((3, 1), (3, 9)))
        = SceneBuilderError ''Cannot add Scene to Rectangle at 3:1 to 3:9''"
    by (simp add: create_error_def span_text_def after_text_def format_d_def digit_char_def)
  show ?thesis
    using h create_rejected_by_parent [OF h, of sample_env "[]"] c e by simp
qed

section \<open>Looking up a property along the ancestors\<close>

lemma get_property_chain:
  "is_chain (heap st) e es \<Longrightarrow> length es \<le> n \<Longrightarrow>
   get_property n st (Some e) name tok =
     (case find (has_property (heap st) name) es of
        Some a \<Rightarrow> Inr (PropertyRef a name)
      | None \<Rightarrow> Inl (create_error (''Undefined property '' @ py_repr name) None tok, st))"
proof (induction "heap st" e es arbitrary: n rule: is_chain.induct)
  case (1 e)
  then show ?case by simp
next
  case (2 e a)
  then obtain m where n: "n = Suc m" by (cases n) auto
  from 2 show ?case
    by (auto simp add: n Element_get_def has_property_def fail_def split: option.splits)
next
  case (3 e a b bs)
  then obtain m where n: "n = Suc m" by (cases n) auto
  from 3(2) have a: "a = e" and p: "parent (heap st e) = Some b" and c: "is_chain (heap st) b (b # bs)"
    by simp_all
  from 3(3) n have "length (b # bs) \<le> m" by simp
  from 3(1) [OF c this] show ?case
    using a p by (auto simp add: n Element_get_def has_property_def split: option.splits)
qed

text \<open>
  Claim C3. For an element whose chain of ancestors is \<open>es\<close> (the element first, the root
  last), the lookup of a name returns the property of the first element of the chain that
  has one of that name, and fails with "Undefined property" when no element of the
  chain has one; it fails in no other case. A member access looks the member up in this
  way, from the element its left side evaluates to.
\<close>

theorem property_lookup_walks_ancestors:
  assumes "is_chain (heap st) e es" and "length es \<le> n"
  shows
   "get_property n st (Some e) name tok =
      (case find (has_property (heap st) name) es of
         Some a \<Rightarrow> Inr (PropertyRef a name)
       | None \<Rightarrow> Inl (create_error (''Undefined property '' @ py_repr name) None tok, st)) \<and>
    ((\<exists>x. get_property n st (Some e) name tok = Inl x) = (\<forall>a\<in>set es. \<not> has_property (heap st) name a)) \<and>
    (self st0 value = Inr (RValue v, st) \<and> eval E n (heap st) [] v = Inr (ElementV e) \<longrightarrow>
       build_MemberAccess self E n st0 tok value name =
         (case find (has_property (heap st) name) es of
            Some a \<Rightarrow> Inr (RValue (PropertyRef a name), st)
          | None \<Rightarrow> Inl (create_error (''Undefined property '' @ py_repr name) None tok, st)))"
proof -
  note g = get_property_chain [OF assms, of name tok]
  have 1: "(\<exists>x. get_property n st (Some e) name tok = Inl x) = (\<forall>a\<in>set es. \<not> has_property (heap st) name a)"
    unfolding g by (auto simp add: find_None_iff find_Some_iff split: option.splits)
  have 2: "build_MemberAccess self E n st0 tok value name =
         (case find (has_property (heap st) name) es of
            Some a \<Rightarrow> Inr (RValue (PropertyRef a name), st)
          | None \<Rightarrow> Inl (create_error (''Undefined property '' @ py_repr name) None tok, st))"
    if "self st0 value = Inr (RValue v, st)" "eval E n (heap st) [] v = Inr (ElementV e)"
    using that g by (simp add: build_MemberAccess_def split: option.splits)
  from g 1 2 show ?thesis by blast
qed

theorem property_lookup_walks_ancestors_witness:
  "is_chain (heap sample_state) 1 [1, 0] \<and> length [1, 0 :: nat] \<le> 2 \<and>
   get_property 2 sample_state (Some 1) ''width'' None = Inr (PropertyRef 1 ''width'') \<and>
   get_property 2 sample_state (Some 1) ''height'' None = Inr (PropertyRef 0 ''height'') \<and>
   get_property 2 sample_state (Some 1) ''depth'' None =
     Inl (SceneBuilderError (''Undefined property '' @ [CHR 0x27] @ ''depth'' @ [CHR 0x27]), sample_state)"
proof -
  have h: "is_chain (heap sample_state) 1 [1, 0]" "length [1, 0 :: nat] \<le> 2"
    by (simp_all add: sample_state_def sample_heap_def)
  have f: "find (has_property (heap sample_state) ''width'') [1, 0] = Some 1"
    "find (has_property (heap sample_state) ''height'') [1, 0] = Some 0"
    "find (has_property (heap sample_state) ''depth'') [1, 0] = None"
    by (simp_all add: has_property_def lookup_property_def sample_state_def sample_heap_def)
  have r: "py_repr ''depth'' = [CHR 0x27] @ ''depth'' @ [CHR 0x27]"
    by (simp add: py_repr_def repr_char_def printable_def Let_def)
  show ?thesis
    using h f r
      property_lookup_walks_ancestors [OF h, of "''width''" None]
      property_lookup_walks_ancestors [OF h, of "''height''" None]
      property_lookup_walks_ancestors [OF h, of "''depth''" None]
    by (simp add: create_error_def after_text_def)
qed

section \<open>Building an included file\<close>

lemma scene_loop_filter:
  "build_Scene_loop self st ch = build_Scene_loop self st (filter is_Include_or_Template ch)"
  by (induction ch arbitrary: st) (auto split: sum.splits prod.splits)

lemma keeps_elements_loop:
  assumes self: "\<And>c st. is_Include_or_Template c \<Longrightarrow> b_including st \<noteq> [] \<Longrightarrow> keeps_elements st (self st c)"
  shows "b_including st \<noteq> [] \<Longrightarrow> keeps_elements st (build_Scene_loop self st ch)"
proof (induction ch arbitrary: st)
  case Nil
  then show ?case by (simp add: keeps_elements_def)
next
  case (Cons c cs)
  show ?case
  proof (cases "is_Include_or_Template c")
    case False
    with Cons show ?thesis by simp
  next
    case True
    note k = self [OF True Cons.prems]
    show ?thesis
    proof (cases "self st c")
      case (Inl x)
      with k True show ?thesis by (simp add: keeps_elements_def split: prod.splits)
    next
      case (Inr y)
      obtain r st1 where y: "y = (r, st1)" by (cases y)
      from k Inr y have s1: "r = RNone" "heap st1 = heap st" "next_id st1 = next_id st"
        "b_elements st1 = b_elements st" "b_including st1 = b_including st"
        by (simp_all add: keeps_elements_def)
      with Cons.prems have "b_including st1 \<noteq> []" by simp
      from Cons.IH [OF this] s1 have "keeps_elements st (build_Scene_loop self st1 cs)"
        by (simp add: keeps_elements_def split: sum.splits prod.splits)
      with True Inr y s1 show ?thesis by simp
    qed
  qed
qed

lemma keeps_elements_include:
  assumes parser: "\<forall>f t. read_parse E f = Inr t \<longrightarrow> is_NScene t"
    and self: "\<And>st tok ch. b_including st \<noteq> [] \<Longrightarrow> keeps_elements st (self st (NScene tok ch))"
  shows "keeps_elements st (include' self E st f)"
proof -
  let ?f = "abspath E f"
  let ?st2 = "st\<lparr>search_paths := search_paths st @ [dirname E ?f], b_including := b_including st @ [?f]\<rparr>"
  show ?thesis
  proof (cases "?f \<in> set (b_including st) \<or> ?f \<in> b_included st")
    case True
    then show ?thesis by (auto simp add: include'_def Let_def keeps_elements_def)
  next
    case False
    show ?thesis
    proof (cases "read_parse E ?f")
      case (Inl x)
      with False show ?thesis by (simp add: include'_def Let_def keeps_elements_def)
    next
      case (Inr t)
      with parser have "is_NScene t" by blast
      then obtain tok ch where t: "t = NScene tok ch" by (cases t) auto
      have "b_including ?st2 \<noteq> []" by simp
      from self [OF this, of tok ch] have k: "keeps_elements ?st2 (self ?st2 (NScene tok ch))" .
      show ?thesis
      proof (cases "self ?st2 (NScene tok ch)")
        case (Inl x)
        with k False Inr t show ?thesis
          by (simp add: include'_def Let_def keeps_elements_def split: prod.splits)
      next
        case r: (Inr y)
        obtain r' st3 where y: "y = (r', st3)" by (cases y)
        from k r y have s3: "heap st3 = heap st" "next_id st3 = next_id st"
          "b_elements st3 = b_elements st" "b_including st3 = b_including st @ [?f]"
          by (simp_all add: keeps_elements_def)
        with False Inr t r y show ?thesis
          by (simp add: include'_def Let_def keeps_elements_def)
      qed
    qed
  qed
qed

lemma keeps_elements_child:
  assumes parser: "\<forall>f t. read_parse E f = Inr t \<longrightarrow> is_NScene t"
    and IH: "\<And>m st tok ch. m < n \<Longrightarrow> b_including st \<noteq> [] \<Longrightarrow> keeps_elements st (build' E m st (NScene tok ch))"
    and c: "is_Include_or_Template c"
  shows "keeps_elements st (build' E n st c)"
proof (cases n)
  case 0
  then show ?thesis by (simp add: keeps_elements_def)
next
  case (Suc m)
  from c show ?thesis
  proof (cases c)
    case (NTemplate tok name inh ch)
    then show ?thesis
      by (simp add: Suc visit_def build_Template_def fail_def keeps_elements_def split: option.splits)
  next
    case (NInclude tok path)
    have i: "keeps_elements st (include' (build' E m) E st f)" for f
      by (rule keeps_elements_include [OF parser]) (rule IH, simp_all add: Suc)
    show ?thesis
    proof (cases "find_scene_file E st path")
      case (Inl x)
      then show ?thesis
        by (cases x) (simp_all add: NInclude Suc visit_def build_Include_def keeps_elements_def split: prod.splits)
    next
      case (Inr f)
      with i [of f] show ?thesis by (simp add: NInclude Suc visit_def build_Include_def)
    qed
  qed simp_all
qed

lemma keeps_elements_scene:
  assumes parser: "\<forall>f t. read_parse E f = Inr t \<longrightarrow> is_NScene t"
  shows "b_including st \<noteq> [] \<Longrightarrow> keeps_elements st (build' E n st (NScene tok ch))"
proof (induction n arbitrary: st tok ch rule: less_induct)
  case (less n)
  show ?case
  proof (cases n)
    case 0
    then show ?thesis by (simp add: keeps_elements_def)
  next
    case (Suc k)
    have "keeps_elements st (build_Scene_loop (build' E k) st ch)"
    proof (rule keeps_elements_loop [OF _ less.prems])
      fix c and st' :: builder
      assume c: "is_Include_or_Template c" and "b_including st' \<noteq> []"
      show "keeps_elements st' (build' E k st' c)"
        by (rule keeps_elements_child [OF parser _ c]) (rule less.IH, simp_all add: Suc)
    qed
    with less.prems show ?thesis
      by (simp add: Suc visit_def build_Scene_def is_including_def)
  qed
qed

text \<open>
  Claim C10. While an include is in progress, building the root node of a file runs the
  loop over its Include and Template children only: the other children, the Create nodes
  among them, are skipped. Provided that the root of every parsed file is a node of class
  Scene, such a build adds no element: whether it returns or raises, the heap and the next
  address are unchanged, and when it returns the element stack is unchanged too.
\<close>

theorem included_file_adds_no_element:
  assumes "is_including st" and "\<forall>f t. read_parse E f = Inr t \<longrightarrow> is_NScene t"
  shows
   "build' E (Suc n) st (NScene tok ch) =
      build_Scene_loop (build' E n) st (filter is_Include_or_Template ch) \<and>
    keeps_elements st (build' E n st (NScene tok ch))"
proof -
  from assms(1) have i: "b_including st \<noteq> []" by (simp add: is_including_def)
  have "build' E (Suc n) st (NScene tok ch) = build_Scene_loop (build' E n) st ch"
    using assms(1) by (simp add: visit_def build_Scene_def)
  with scene_loop_filter [of "build' E n" st ch] keeps_elements_scene [OF assms(2) i, of n tok ch]
  show ?thesis by simp
qed


theorem included_file_adds_no_element_witness:
  "is_including (sample_state\<lparr>b_including := [''/lib/shapes.anim'']\<rparr>) \<and>
   build' (sample_env\<lparr>read_parse := (\<lambda>f. Inr (NScene None []))\<rparr>) (Suc (Suc 0))
     (sample_state\<lparr>b_including := [''/lib/shapes.anim'']\<rparr>)
     (NScene None [NTemplate None ''Box'' (Some ''Rectangle'') [], NCreate None ''Circle'' None []]) =
     Inr (RNone, sample_state\<lparr>b_including := [''/lib/shapes.anim''],
                               templates := (templates sample_state)(''Box'' \<mapsto> Tpl None ''Box'' (Some ''Rectangle'') [])\<rparr>)"
proof -
  have h: "is_including (sample_state\<lparr>b_including := [''/lib/shapes.anim'']\<rparr>)"
    "\<forall>f t. read_parse (sample_env\<lparr>read_parse := (\<lambda>f. Inr (NScene None []))\<rparr>) f = Inr t \<longrightarrow> is_NScene t"
    by (auto simp add: is_including_def)
  have t: "templates sample_state ''Box'' = None"
    by (simp add: sample_state_def sample_templates_def sample_env_def)
  show ?thesis
    using h(1) t included_file_adds_no_element [OF h, of "Suc 0" None
        "[NTemplate None ''Box'' (Some ''Rectangle'') [], NCreate None ''Circle'' None []]"]
    by (simp add: visit_def build_Template_def)
qed

section \<open>Applying a template\<close>

lemma run_levels_append:
  "run_levels self e (chs @ [ch]) st =
     (case run_levels self e chs st of
        Inl x \<Rightarrow> Inl x
      | Inr st1 \<Rightarrow>
          (case build_children self st1 ch of
             Inl x \<Rightarrow> Inl x
           | Inr (rs, st2) \<Rightarrow> pop_element e st2))"
  by (induction chs arbitrary: st) (auto split: sum.splits prod.splits)

lemma apply_template_chain:
  "resolves (templates st) name chain ty \<Longrightarrow> length chain < n \<Longrightarrow>
   apply_template self E n st e name tok = apply_base_first self E st e chain"
proof (induction chain arbitrary: st name n)
  case Nil
  then obtain m where n: "n = Suc m" by (cases n) auto
  from Nil(1) have "templates st name = Some (Cls ty)"
    by (auto split: option.splits template_entry.splits)
  then show ?case
    by (simp add: n apply_base_first_def split: sum.splits prod.splits)
next
  case (Cons ch chain)
  then obtain m where n: "n = Suc m" by (cases n) auto
  from Cons.prems(1) obtain t nm inh where
    t: "templates st name = Some (Tpl t nm inh ch)"
    and r: "resolves (templates st) (inherit_or_default inh) chain ty"
    by (auto split: option.splits template_entry.splits)
  from r have r': "resolves (templates (push_element e st)) (inherit_or_default inh) chain ty"
    by (simp add: push_element_def)
  from Cons.prems(2) n have l: "length chain < m" by simp
  have st0: "push_element e st\<lparr>b_elements := b_elements (push_element e st) @ replicate (length chain) e\<rparr>
      = st\<lparr>b_elements := b_elements st @ replicate (length (ch # chain)) e\<rparr>"
    by (simp add: push_element_def replicate_append_same)
  have h0: "heap (push_element e st) = heap st" by (simp add: push_element_def)
  show ?case
    unfolding n apply_template.simps t
    by (simp add: Cons.IH [OF r' l] apply_base_first_def st0 h0 run_levels_append Let_def
          del: replicate.simps split: sum.splits prod.splits)
qed

lemma get_element_type_chain:
  "resolves (templates st) name chain ty \<Longrightarrow> length chain < n \<Longrightarrow>
   get_element_type n st name tok = Inr ty"
proof (induction chain arbitrary: name n tok)
  case Nil
  then obtain m where n: "n = Suc m" by (cases n) auto
  from Nil(1) show ?case
    by (auto simp add: n get_template_def split: option.splits template_entry.splits)
next
  case (Cons ch chain)
  then obtain m where n: "n = Suc m" by (cases n) auto
  from Cons.prems(1) obtain t nm inh where
    t: "templates st name = Some (Tpl t nm inh ch)"
    and r: "resolves (templates st) (inherit_or_default inh) chain ty"
    by (auto split: option.splits template_entry.splits)
  from Cons.prems(2) n have l: "length chain < m" by simp
  from Cons.IH [OF r l] t show ?case by (simp add: n get_template_def)
qed

text \<open>
  Claim C2. When the inherit references of a template name lead, through the templates of
  the chain, to an element class (the reference of a template that declares none being
  "Drawable"), and the fuel exceeds the length of the chain, applying the template is the
  base-first application: first the hook \<^verbatim>\<open>on_ready\<close> on the element, then the directives
  of each template in declared order, the template next to the class first and the named
  template last. The element type of the name is the class the chain ends at.
\<close>

theorem template_applied_base_first:
  assumes "resolves (templates st) name chain ty" and "length chain < n"
  shows
   "apply_template self E n st e name tok = apply_base_first self E st e chain \<and>
    get_element_type n st name tok = Inr ty \<and>
    (\<forall>t nm ch. templates st name = Some (Tpl t nm None ch) \<longrightarrow>
        resolves (templates st) ''Drawable'' (tl chain) ty)"
proof -
  have "resolves (templates st) ''Drawable'' (tl chain) ty"
    if "templates st name = Some (Tpl t nm None ch)" for t nm ch
    using that assms(1) by (cases chain) (simp_all add: inherit_or_default_def)
  with apply_template_chain [OF assms] get_element_type_chain [OF assms] show ?thesis by blast
qed


theorem template_applied_base_first_witness:
  "resolves (templates template_state) ''Fancy''
      [[NAssign None ''speed'' (NNumber None 2 None)], [NDefine None ''speed'' (NNumber None 1 None)]] Drawable \<and>
   length [[NAssign None ''speed'' (NNumber None 2 None)], [NDefine None ''speed'' (NNumber None 1 None)]] < 3 \<and>
   get_element_type 3 template_state ''Fancy'' None = Inr Drawable \<and>
   (\<exists>st'. apply_template (build' sample_env (Suc (Suc 0))) sample_env 3 template_state 2 ''Fancy'' None = Inr st' \<and>
      b_elements st' = b_elements template_state \<and>
      map (\<lambda>(k, p). (k, p_value p)) (properties (heap st' 2)) =
        [(''index'', Number 0), (''x'', Number 0), (''y'', Number 0), (''width'', Percentage 100),
         (''height'', Percentage 100), (''speed'', Number 2)])"
proof -
  let ?chain = "[[NAssign None ''speed'' (NNumber None 2 None)], [NDefine None ''speed'' (NNumber None 1 None)]]"
  have h: "resolves (templates template_state) ''Fancy'' ?chain Drawable" "length ?chain < 3"
    by (simp_all add: template_state_def sample_state_def sample_templates_def sample_env_def inherit_or_default_def)
  have "\<exists>st'. apply_base_first (build' sample_env (Suc (Suc 0))) sample_env template_state 2 ?chain = Inr st' \<and>
      b_elements st' = b_elements template_state \<and>
      map (\<lambda>(k, p). (k, p_value p)) (properties (heap st' 2)) =
        [(''index'', Number 0), (''x'', Number 0), (''y'', Number 0), (''width'', Percentage 100),
         (''height'', Percentage 100), (''speed'', Number 2)]"
    by (simp add: apply_base_first_def template_state_def sample_state_def sample_heap_def sample_env_def
          element_on_ready_def Drawable_on_ready_def new_element_def Element_define_def
          lookup_property_def numeral_3_eq_3 numeral_2_eq_2 visit_def build_Define_def
          build_Assign_def build_Number_def define_value_def assign_value_def Element_set_def
          circular_literal push_type_def pop_type_def pop_element_def store_value_def Let_def)
  with h template_applied_base_first [OF h, of "build' sample_env (Suc (Suc 0))" sample_env 2 None]
  show ?thesis by simp
qed

section \<open>Assigning to a property\<close>



























section \<open>Assigning a circular reference\<close>






section \<open>The defaults of a Circle\<close>

text \<open>
  What \<^verbatim>\<open>Circle.on_ready\<close> leaves on a new element, when the search for circular
  references may go three levels deep and the type check accepts the four assignments of
  the hook.
\<close>

lemmas on_ready_defs = Circle_on_ready_def Drawable_on_ready_def center_ops_def position_ops_def
  color_ops_def outline_ops_def with_get_def Element_get_def Element_define_def Element_set_def
  lookup_property_def store_value_def

lemma circle_defaults:
  assumes fresh: "properties (h e) = []" and par: "parent (h e) = Some p"
    and idx: "index_of (children (h p)) e = Some i"
    and lim: "recursion_limit E = Suc (Suc (Suc k))"
    and tx: "type_compatible E (infer_types E (Number 0))
               (BinOp ''-'' (PropertyRef e ''center_x'') (BinOp ''/'' (PropertyRef e ''width'') (Number 2)))"
    and ty: "type_compatible E (infer_types E (Number 0))
               (BinOp ''-'' (PropertyRef e ''center_y'') (BinOp ''/'' (PropertyRef e ''height'') (Number 2)))"
    and tw: "type_compatible E (infer_types E (Percentage 100)) (BinOp ''*'' (PropertyRef e ''radius'') (Number 2))"
  shows "\<exists>h1. Circle_on_ready E e h = Inr h1 \<and> parent (h1 e) = Some p \<and>
     (\<forall>a. a \<noteq> e \<longrightarrow> h1 a = h a) \<and>
     lookup_property h1 e ''diameter'' =
       Some \<lparr>p_value = Percentage 100, p_types = infer_types E (Percentage 100),
             p_relative = Some ''width'', p_readonly = False, p_constant = False\<rparr> \<and>
     lookup_property h1 e ''radius'' =
       Some \<lparr>p_value = BinOp ''/'' (PropertyRef e ''diameter'') (Number 2),
             p_types = infer_types E (BinOp ''/'' (PropertyRef e ''diameter'') (Number 2)),
             p_relative = Some ''width'', p_readonly = False, p_constant = False\<rparr> \<and>
     lookup_property h1 e ''width'' =
       Some \<lparr>p_value = BinOp ''*'' (PropertyRef e ''radius'') (Number 2),
             p_types = infer_types E (Percentage 100),
             p_relative = Some ''width'', p_readonly = False, p_constant = False\<rparr> \<and>
     lookup_property h1 e ''height'' =
       Some \<lparr>p_value = BinOp ''*'' (PropertyRef e ''radius'') (Number 2),
             p_types = infer_types E (Percentage 100),
             p_relative = Some ''height'', p_readonly = False, p_constant = False\<rparr> \<and>
     map_option (\<lambda>q. (p_value q, p_relative q)) (lookup_property h1 e ''center_x'') =
       Some (BinOp ''-'' (Percentage 50) (BinOp ''/'' (PropertyRef e ''width'') (Number 2)), Some ''width'') \<and>
     map_option (\<lambda>q. (p_value q, p_relative q)) (lookup_property h1 e ''x'') =
       Some (BinOp ''-'' (PropertyRef e ''center_x'') (BinOp ''/'' (PropertyRef e ''width'') (Number 2)),
             Some ''width'') \<and>
     map (\<lambda>(k, q). (k, p_value q, p_relative q, p_readonly q, p_constant q)) (properties (h1 e)) =
       [(''index'', Number (real i), None, True, True),
        (''x'', BinOp ''-'' (PropertyRef e ''center_x'') (BinOp ''/'' (PropertyRef e ''width'') (Number 2)),
           Some ''width'', False, False),
        (''y'', BinOp ''-'' (PropertyRef e ''center_y'') (BinOp ''/'' (PropertyRef e ''height'') (Number 2)),
           Some ''height'', False, False),
        (''width'', BinOp ''*'' (PropertyRef e ''radius'') (Number 2), Some ''width'', False, False),
        (''height'', BinOp ''*'' (PropertyRef e ''radius'') (Number 2), Some ''height'', False, False),
        (''center_x'', BinOp ''-'' (Percentage 50) (BinOp ''/'' (PropertyRef e ''width'') (Number 2)),
           Some ''width'', False, False),
        (''center_y'', BinOp ''-'' (Percentage 50) (BinOp ''/'' (PropertyRef e ''height'') (Number 2)),
           Some ''height'', False, False),
        (''diameter'', Percentage 100, Some ''width'', False, False),
        (''radius'', BinOp ''/'' (PropertyRef e ''diameter'') (Number 2), Some ''width'', False, False),
        (''color'', Vec4 255 255 255 255, None, False, False),
        (''fill'', PropertyRef e ''color'', None, False, False),
        (''outline'', Vec4 0 0 0 0, None, False, False),
        (''outline_width'', Number 1, None, False, False)]"
  using fresh par idx tx ty tw by (simp add: on_ready_defs circular_paths_def lim)

lemma radius_eval:
  assumes "parent (h e) = Some p"
    and "map_option p_value (lookup_property h e ''diameter'') = Some (Percentage 50)"
    and "map_option (\<lambda>q. (p_value q, p_relative q)) (lookup_property h e ''radius'') =
           Some (BinOp ''/'' (PropertyRef e ''diameter'') (Number 2), Some ''width'')"
    and "map_option p_value (lookup_property h p ''width'') = Some (Number 300)"
  shows "evaluate E (Suc (Suc (Suc (Suc (Suc n))))) h e ''radius'' = Inr (Number 75)"
proof -
  from assms obtain d r w where
    "lookup_property h e ''diameter'' = Some d" "p_value d = Percentage 50"
    "lookup_property h e ''radius'' = Some r"
    "p_value r = BinOp ''/'' (PropertyRef e ''diameter'') (Number 2)" "p_relative r = Some ''width''"
    "lookup_property h p ''width'' = Some w" "p_value w = Number 300"
    by auto
  with assms(1) show ?thesis
    by (simp add: apply_binop_def arith_def wrap_def scaling_def)
qed

lemma centre_eval:
  assumes "parent (h e) = Some p"
    and "map_option p_value (lookup_property h e ''diameter'') = Some (Percentage 50)"
    and "map_option p_value (lookup_property h e ''radius'') =
           Some (BinOp ''/'' (PropertyRef e ''diameter'') (Number 2))"
    and "map_option p_value (lookup_property h e ''width'') =
           Some (BinOp ''*'' (PropertyRef e ''radius'') (Number 2))"
    and "map_option (\<lambda>q. (p_value q, p_relative q)) (lookup_property h e ''center_x'') =
           Some (BinOp ''-'' (Percentage 50) (BinOp ''/'' (PropertyRef e ''width'') (Number 2)), Some ''width'')"
    and "map_option (\<lambda>q. (p_value q, p_relative q)) (lookup_property h e ''x'') =
           Some (BinOp ''-'' (PropertyRef e ''center_x'') (BinOp ''/'' (PropertyRef e ''width'') (Number 2)),
                 Some ''width'')"
    and "map_option p_value (lookup_property h p ''width'') = Some (Number 300)"
  shows "evaluate E (Suc (Suc (Suc (Suc (Suc (Suc (Suc (Suc (Suc (Suc n)))))))))) h e ''center_x'' =
           Inr (Number 75)"
    and "evaluate E (Suc (Suc (Suc (Suc (Suc (Suc (Suc (Suc (Suc (Suc (Suc (Suc n)))))))))))) h e ''x'' =
           Inr (Number 0)"
proof -
  from assms obtain d r wd c x w where
    "lookup_property h e ''diameter'' = Some d" "p_value d = Percentage 50"
    "lookup_property h e ''radius'' = Some r"
    "p_value r = BinOp ''/'' (PropertyRef e ''diameter'') (Number 2)"
    "lookup_property h e ''width'' = Some wd"
    "p_value wd = BinOp ''*'' (PropertyRef e ''radius'') (Number 2)"
    "lookup_property h e ''center_x'' = Some c"
    "p_value c = BinOp ''-'' (Percentage 50) (BinOp ''/'' (PropertyRef e ''width'') (Number 2))"
    "p_relative c = Some ''width''"
    "lookup_property h e ''x'' = Some x"
    "p_value x = BinOp ''-'' (PropertyRef e ''center_x'') (BinOp ''/'' (PropertyRef e ''width'') (Number 2))"
    "p_relative x = Some ''width''"
    "lookup_property h p ''width'' = Some w" "p_value w = Number 300"
    by auto
  note f = this assms(1)
  from f show "evaluate E (Suc (Suc (Suc (Suc (Suc (Suc (Suc (Suc (Suc (Suc n)))))))))) h e ''center_x'' =
           Inr (Number 75)"
    by (simp add: apply_binop_def arith_def wrap_def scaling_def additive_def)
  from f show "evaluate E (Suc (Suc (Suc (Suc (Suc (Suc (Suc (Suc (Suc (Suc (Suc (Suc n)))))))))))) h e ''x'' =
           Inr (Number 0)"
    by (simp add: apply_binop_def arith_def wrap_def scaling_def additive_def)
qed

lemma radius_unit:
  assumes "map_option p_value (lookup_property h e ''diameter'') = Some (Percentage 50)"
    and "map_option (\<lambda>q. (p_value q, p_relative q)) (lookup_property h e ''radius'') =
           Some (BinOp ''/'' (PropertyRef e ''diameter'') (Number 2), Some ''width'')"
  shows "eval E (Suc (Suc (Suc (Suc n)))) h [] (PropertyRef e ''radius'') = Inr (Percentage 25)"
proof -
  from assms obtain d r where
    "lookup_property h e ''diameter'' = Some d" "p_value d = Percentage 50"
    "lookup_property h e ''radius'' = Some r"
    "p_value r = BinOp ''/'' (PropertyRef e ''diameter'') (Number 2)"
    by auto
  then show ?thesis
    by (simp add: apply_binop_def arith_def wrap_def scaling_def)
qed

text \<open>
  The Circle after \<^verbatim>\<open>on_ready\<close> and the assignment of 50% to its diameter, under a parent
  whose width is 300.
\<close>

lemma circle_with_diameter:
  assumes fresh: "properties (h e) = []" and par: "parent (h e) = Some p"
    and idx: "index_of (children (h p)) e = Some i"
    and lim: "3 \<le> recursion_limit E"
    and tx: "type_compatible E (infer_types E (Number 0))
               (BinOp ''-'' (PropertyRef e ''center_x'') (BinOp ''/'' (PropertyRef e ''width'') (Number 2)))"
    and ty: "type_compatible E (infer_types E (Number 0))
               (BinOp ''-'' (PropertyRef e ''center_y'') (BinOp ''/'' (PropertyRef e ''height'') (Number 2)))"
    and tw: "type_compatible E (infer_types E (Percentage 100)) (BinOp ''*'' (PropertyRef e ''radius'') (Number 2))"
    and td: "type_compatible E (infer_types E (Percentage 100)) (Percentage 50)"
    and pw: "map_option p_value (lookup_property h p ''width'') = Some (Number 300)"
  shows "\<exists>h1 h2. Circle_on_ready E e h = Inr h1 \<and>
      Element_set E e ''diameter'' (Percentage 50) h1 = Inr h2 \<and>
      map_option (\<lambda>q. (p_value q, p_relative q)) (lookup_property h1 e ''diameter'') =
        Some (Percentage 100, Some ''width'') \<and>
      map_option (\<lambda>q. (p_value q, p_relative q)) (lookup_property h1 e ''radius'') =
        Some (BinOp ''/'' (PropertyRef e ''diameter'') (Number 2), Some ''width'') \<and>
      map_option p_value (lookup_property h1 e ''width'') =
        Some (BinOp ''*'' (PropertyRef e ''radius'') (Number 2)) \<and>
      map_option p_value (lookup_property h1 e ''height'') =
        Some (BinOp ''*'' (PropertyRef e ''radius'') (Number 2)) \<and>
      parent (h2 e) = Some p \<and>
      map_option p_value (lookup_property h2 p ''width'') = Some (Number 300) \<and>
      map_option p_value (lookup_property h2 e ''diameter'') = Some (Percentage 50) \<and>
      map_option (\<lambda>q. (p_value q, p_relative q)) (lookup_property h2 e ''radius'') =
        Some (BinOp ''/'' (PropertyRef e ''diameter'') (Number 2), Some ''width'') \<and>
      map_option p_value (lookup_property h2 e ''width'') =
        Some (BinOp ''*'' (PropertyRef e ''radius'') (Number 2)) \<and>
      map_option (\<lambda>q. (p_value q, p_relative q)) (lookup_property h2 e ''center_x'') =
        Some (BinOp ''-'' (Percentage 50) (BinOp ''/'' (PropertyRef e ''width'') (Number 2)), Some ''width'') \<and>
      map_option (\<lambda>q. (p_value q, p_relative q)) (lookup_property h2 e ''x'') =
        Some (BinOp ''-'' (PropertyRef e ''center_x'') (BinOp ''/'' (PropertyRef e ''width'') (Number 2)),
              Some ''width'')"
proof -
  from lim obtain k where k: "recursion_limit E = Suc (Suc (Suc k))"
    by (auto simp add: numeral_3_eq_3 le_iff_add)
  from circle_defaults [OF fresh par idx k tx ty tw] obtain h1 where
    r: "Circle_on_ready E e h = Inr h1" and p1: "parent (h1 e) = Some p"
    and o: "\<forall>a. a \<noteq> e \<longrightarrow> h1 a = h a"
    and d: "lookup_property h1 e ''diameter'' =
       Some \<lparr>p_value = Percentage 100, p_types = infer_types E (Percentage 100),
             p_relative = Some ''width'', p_readonly = False, p_constant = False\<rparr>"
    and ra: "lookup_property h1 e ''radius'' =
       Some \<lparr>p_value = BinOp ''/'' (PropertyRef e ''diameter'') (Number 2),
             p_types = infer_types E (BinOp ''/'' (PropertyRef e ''diameter'') (Number 2)),
             p_relative = Some ''width'', p_readonly = False, p_constant = False\<rparr>"
    and wi: "lookup_property h1 e ''width'' =
       Some \<lparr>p_value = BinOp ''*'' (PropertyRef e ''radius'') (Number 2),
             p_types = infer_types E (Percentage 100),
             p_relative = Some ''width'', p_readonly = False, p_constant = False\<rparr>"
    and he: "lookup_property h1 e ''height'' =
       Some \<lparr>p_value = BinOp ''*'' (PropertyRef e ''radius'') (Number 2),
             p_types = infer_types E (Percentage 100),
             p_relative = Some ''height'', p_readonly = False, p_constant = False\<rparr>"
    and cx: "map_option (\<lambda>q. (p_value q, p_relative q)) (lookup_property h1 e ''center_x'') =
       Some (BinOp ''-'' (Percentage 50) (BinOp ''/'' (PropertyRef e ''width'') (Number 2)), Some ''width'')"
    and x: "map_option (\<lambda>q. (p_value q, p_relative q)) (lookup_property h1 e ''x'') =
       Some (BinOp ''-'' (PropertyRef e ''center_x'') (BinOp ''/'' (PropertyRef e ''width'') (Number 2)),
             Some ''width'')"
    by blast
  define h2 where "h2 = h1(e := (h1 e)\<lparr>properties := store_value ''diameter'' (Percentage 50) (properties (h1 e))\<rparr>)"
  have cl: "circular_paths E h1 (e, ''diameter'') (Percentage 50) = Some []"
    by (rule circular_literal) (simp_all add: k)
  have s: "Element_set E e ''diameter'' (Percentage 50) h1 = Inr h2"
    using d td cl by (simp add: Element_set_def h2_def)
  have ne: "p \<noteq> e" using fresh pw by (auto simp add: lookup_property_def)
  have p2: "parent (h2 e) = Some p" using p1 by (simp add: h2_def)
  have d2: "lookup_property h2 e ''diameter'' =
       Some (\<lparr>p_value = Percentage 100, p_types = infer_types E (Percentage 100),
             p_relative = Some ''width'', p_readonly = False, p_constant = False\<rparr>\<lparr>p_value := Percentage 50\<rparr>)"
    unfolding h2_def using d by (rule lookup_after_store)
  have other: "lookup_property h2 e name = lookup_property h1 e name" if "name \<noteq> ''diameter''" for name
    unfolding h2_def using that by (rule lookup_after_store_other)
  have "h2 p = h p" using ne o by (simp add: h2_def)
  then have w2: "map_option p_value (lookup_property h2 p ''width'') = Some (Number 300)"
    using pw by (simp add: lookup_property_def)
  from r s d ra wi he p2 w2 d2 cx x show ?thesis
    by (intro exI [of _ h1] exI [of _ h2]) (simp add: other)
qed

text \<open>
  The centre derivations of the hook evaluate by the unit rules: with the diameter 50%
  under a parent of width 300, the centre of the Circle is at 75 and its x at 0.
\<close>

lemma circle_centre:
  assumes fresh: "properties (h e) = []" and par: "parent (h e) = Some p"
    and idx: "index_of (children (h p)) e = Some i"
    and lim: "3 \<le> recursion_limit E"
    and tx: "type_compatible E (infer_types E (Number 0))
               (BinOp ''-'' (PropertyRef e ''center_x'') (BinOp ''/'' (PropertyRef e ''width'') (Number 2)))"
    and ty: "type_compatible E (infer_types E (Number 0))
               (BinOp ''-'' (PropertyRef e ''center_y'') (BinOp ''/'' (PropertyRef e ''height'') (Number 2)))"
    and tw: "type_compatible E (infer_types E (Percentage 100)) (BinOp ''*'' (PropertyRef e ''radius'') (Number 2))"
    and td: "type_compatible E (infer_types E (Percentage 100)) (Percentage 50)"
    and pw: "map_option p_value (lookup_property h p ''width'') = Some (Number 300)"
  shows "\<exists>h1 h2. Circle_on_ready E e h = Inr h1 \<and>
      Element_set E e ''diameter'' (Percentage 50) h1 = Inr h2 \<and>
      evaluate E 10 h2 e ''center_x'' = Inr (Number 75) \<and>
      evaluate E 12 h2 e ''x'' = Inr (Number 0)"
proof -
  from circle_with_diameter [OF assms] obtain h1 h2 where
    a: "Circle_on_ready E e h = Inr h1" "Element_set E e ''diameter'' (Percentage 50) h1 = Inr h2"
    and b: "parent (h2 e) = Some p"
      "map_option p_value (lookup_property h2 e ''diameter'') = Some (Percentage 50)"
    and ra: "map_option (\<lambda>q. (p_value q, p_relative q)) (lookup_property h2 e ''radius'') =
        Some (BinOp ''/'' (PropertyRef e ''diameter'') (Number 2), Some ''width'')"
    and c: "map_option p_value (lookup_property h2 e ''width'') =
        Some (BinOp ''*'' (PropertyRef e ''radius'') (Number 2))"
      "map_option (\<lambda>q. (p_value q, p_relative q)) (lookup_property h2 e ''center_x'') =
        Some (BinOp ''-'' (Percentage 50) (BinOp ''/'' (PropertyRef e ''width'') (Number 2)), Some ''width'')"
      "map_option (\<lambda>q. (p_value q, p_relative q)) (lookup_property h2 e ''x'') =
        Some (BinOp ''-'' (PropertyRef e ''center_x'') (BinOp ''/'' (PropertyRef e ''width'') (Number 2)),
              Some ''width'')"
      "map_option p_value (lookup_property h2 p ''width'') = Some (Number 300)"
    by blast
  from ra have r: "map_option p_value (lookup_property h2 e ''radius'') =
      Some (BinOp ''/'' (PropertyRef e ''diameter'') (Number 2))"
    by auto
  have n: "(10 :: nat) = Suc (Suc (Suc (Suc (Suc (Suc (Suc (Suc (Suc (Suc 0)))))))))"
    "(12 :: nat) = Suc (Suc (Suc (Suc (Suc (Suc (Suc (Suc (Suc (Suc (Suc (Suc 0)))))))))))"
    by simp_all
  from a centre_eval [OF b r c, of E 0] show ?thesis unfolding n by blast
qed

text \<open>
  Claim C8. For a new element of class Circle attached to a parent, the hook
  \<^verbatim>\<open>on_ready\<close> defines diameter as 100% relative to width and radius as diameter divided by
  2, both relative to width, and sets width and height to radius times 2. When the parent
  has the width 300 and the diameter is then assigned 50%, evaluating radius for a consumer
  that needs pixels yields 75: the expression evaluates to 25%, taken of the width of the
  parent. (The search for circular references may go three levels deep, and the type
  check accepts the four assignments of the hook and the assignment of 50% to the
  diameter.)
\<close>

theorem circle_radius:
  assumes fresh: "properties (h e) = []" and par: "parent (h e) = Some p"
    and idx: "index_of (children (h p)) e = Some i"
    and lim: "3 \<le> recursion_limit E"
    and tx: "type_compatible E (infer_types E (Number 0))
               (BinOp ''-'' (PropertyRef e ''center_x'') (BinOp ''/'' (PropertyRef e ''width'') (Number 2)))"
    and ty: "type_compatible E (infer_types E (Number 0))
               (BinOp ''-'' (PropertyRef e ''center_y'') (BinOp ''/'' (PropertyRef e ''height'') (Number 2)))"
    and tw: "type_compatible E (infer_types E (Percentage 100)) (BinOp ''*'' (PropertyRef e ''radius'') (Number 2))"
    and td: "type_compatible E (infer_types E (Percentage 100)) (Percentage 50)"
    and pw: "map_option p_value (lookup_property h p ''width'') = Some (Number 300)"
  shows "\<exists>h1 h2. Circle_on_ready E e h = Inr h1 \<and>
      map_option (\<lambda>q. (p_value q, p_relative q)) (lookup_property h1 e ''diameter'') =
        Some (Percentage 100, Some ''width'') \<and>
      map_option (\<lambda>q. (p_value q, p_relative q)) (lookup_property h1 e ''radius'') =
        Some (BinOp ''/'' (PropertyRef e ''diameter'') (Number 2), Some ''width'') \<and>
      map_option p_value (lookup_property h1 e ''width'') =
        Some (BinOp ''*'' (PropertyRef e ''radius'') (Number 2)) \<and>
      map_option p_value (lookup_property h1 e ''height'') =
        Some (BinOp ''*'' (PropertyRef e ''radius'') (Number 2)) \<and>
      Element_set E e ''diameter'' (Percentage 50) h1 = Inr h2 \<and>
      (\<forall>n. eval E (Suc (Suc (Suc (Suc n)))) h2 [] (PropertyRef e ''radius'') = Inr (Percentage 25)) \<and>
      (\<forall>n. evaluate E (Suc (Suc (Suc (Suc (Suc n))))) h2 e ''radius'' = Inr (Number 75))"
proof -
  from circle_with_diameter [OF assms] obtain h1 h2 where
    a: "Circle_on_ready E e h = Inr h1" "Element_set E e ''diameter'' (Percentage 50) h1 = Inr h2"
      "map_option (\<lambda>q. (p_value q, p_relative q)) (lookup_property h1 e ''diameter'') =
        Some (Percentage 100, Some ''width'')"
      "map_option (\<lambda>q. (p_value q, p_relative q)) (lookup_property h1 e ''radius'') =
        Some (BinOp ''/'' (PropertyRef e ''diameter'') (Number 2), Some ''width'')"
      "map_option p_value (lookup_property h1 e ''width'') =
        Some (BinOp ''*'' (PropertyRef e ''radius'') (Number 2))"
      "map_option p_value (lookup_property h1 e ''height'') =
        Some (BinOp ''*'' (PropertyRef e ''radius'') (Number 2))"
    and b: "parent (h2 e) = Some p"
      "map_option p_value (lookup_property h2 e ''diameter'') = Some (Percentage 50)"
      "map_option (\<lambda>q. (p_value q, p_relative q)) (lookup_property h2 e ''radius'') =
        Some (BinOp ''/'' (PropertyRef e ''diameter'') (Number 2), Some ''width'')"
      "map_option p_value (lookup_property h2 p ''width'') = Some (Number 300)"
    by blast
  have ev: "evaluate E (Suc (Suc (Suc (Suc (Suc n))))) h2 e ''radius'' = Inr (Number 75)" for n
    by (rule radius_eval [OF b])
  have un: "eval E (Suc (Suc (Suc (Suc n)))) h2 [] (PropertyRef e ''radius'') = Inr (Percentage 25)" for n
    by (rule radius_unit [OF b(2,3)])
  from a ev un show ?thesis by (intro exI [of _ h1] exI [of _ h2]) simp
qed

theorem circle_radius_witness:
  "properties (circle_heap 2) = [] \<and> parent (circle_heap 2) = Some 0 \<and>
   index_of (children (circle_heap 0)) 2 = Some 1 \<and>
   3 \<le> recursion_limit sample_env \<and>
   map_option p_value (lookup_property circle_heap 0 ''width'') = Some (Number 300) \<and>
   (\<exists>h1 h2. Circle_on_ready sample_env 2 circle_heap = Inr h1 \<and>
      Element_set sample_env 2 ''diameter'' (Percentage 50) h1 = Inr h2 \<and>
      eval sample_env (Suc (Suc (Suc (Suc 0)))) h2 [] (PropertyRef 2 ''radius'') = Inr (Percentage 25) \<and>
      evaluate sample_env (Suc (Suc (Suc (Suc (Suc 0))))) h2 2 ''radius'' = Inr (Number 75))"
proof -
  have h: "properties (circle_heap 2) = []" "parent (circle_heap 2) = Some 0"
    "index_of (children (circle_heap 0)) 2 = Some 1"
    "3 \<le> recursion_limit sample_env"
    by (simp_all add: circle_heap_def sample_heap_def new_element_def sample_env_def)
  have t: "type_compatible sample_env ts v" for ts v
    by (simp add: sample_env_def)
  have w: "map_option p_value (lookup_property circle_heap 0 ''width'') = Some (Number 300)"
    by (simp add: circle_heap_def sample_heap_def lookup_property_def plain_def)
  from circle_radius [OF h t t t t w] h w show ?thesis by blast
qed

end
